theory Spec2Isabelle
  imports Complex_Main "HOL-Library.Char_ord" "HOL-Library.List_Lexorder" "HOL-Library.AList"
begin

section \<open>JSON values and Go's dynamic values\<close>

text \<open>
  A syntactically valid JSON text, as \<^verbatim>\<open>encoding/json\<close> sees it. Strings are byte
  strings (Go's \<^verbatim>\<open>string\<close>), so a character outside ASCII is its UTF-8 bytes. A number
  literal is kept as the \<^verbatim>\<open>float64\<close> that \<^verbatim>\<open>strconv.ParseFloat\<close> reads from it
  (\<open>JNum\<close>); a literal outside the range of \<^verbatim>\<open>float64\<close>, which every decoding into
  \<^verbatim>\<open>float64\<close> rejects, is \<open>JNumOutOfRange\<close>. An object keeps its members in document
  order, duplicates included.
\<close>

datatype json = JNull | JBool bool | JNum real | JNumOutOfRange | JStr string
  | JArr "json list" | JObj "(string \<times> json) list"

text \<open>
  The values a \<^verbatim>\<open>map[string]interface{}\<close> holds after decoding: \<^verbatim>\<open>nil\<close>,
  \<^verbatim>\<open>string\<close>, \<^verbatim>\<open>float64\<close>, \<^verbatim>\<open>bool\<close>, \<^verbatim>\<open>[]interface{}\<close> and
  \<^verbatim>\<open>map[string]interface{}\<close> (its entries, keys distinct).
\<close>

datatype any = ANil | AString string | AFloat64 real | ABool bool
  | ASlice "any list" | AMap "(string \<times> any) list"

fun join_sp :: "string list \<Rightarrow> string" where
  "join_sp [] = []"
| "join_sp [s] = s"
| "join_sp (s # t # ss) = s @ '' '' @ join_sp (t # ss)"

text \<open>
  \<^verbatim>\<open>fmt.Sprintf("%v", x)\<close> for \<open>x\<close> of type \<^verbatim>\<open>interface{}\<close>. The nil interface prints as
  \<^verbatim>\<open><nil>\<close>, a string as itself, a slice as \<^verbatim>\<open>[a b]\<close>, a map as \<^verbatim>\<open>map[k:v]\<close> with
  its keys sorted. The shortest-decimal formatting of a \<^verbatim>\<open>float64\<close> is the parameter
  \<open>ff\<close>.
\<close>

fun sprintf_v :: "(real \<Rightarrow> string) \<Rightarrow> any \<Rightarrow> string" where
  "sprintf_v ff ANil = ''<nil>''"
| "sprintf_v ff (AString s) = s"
| "sprintf_v ff (AFloat64 x) = ff x"
| "sprintf_v ff (ABool b) = (if b then ''true'' else ''false'')"
| "sprintf_v ff (ASlice xs) = ''['' @ join_sp (map (sprintf_v ff) xs) @ '']''"
| "sprintf_v ff (AMap kvs) =
     ''map['' @ join_sp (map (\<lambda>(k, s). k @ '':'' @ s)
        (sort_key fst (map (\<lambda>(k, v). (k, sprintf_v ff v)) kvs))) @ '']''"

section \<open>The data model of main.go\<close>

record Geometry =
  Type :: string
  Coordinates :: "json option"  \<comment> \<open>\<^verbatim>\<open>json.RawMessage\<close>; \<open>None\<close> when it is empty\<close>

record Feature =
  FeatureType :: string  \<comment> \<open>the field \<^verbatim>\<open>Type\<close> of \<^verbatim>\<open>Feature\<close>\<close>
  Properties :: "string \<rightharpoonup> any"  \<comment> \<open>the nil map is the empty map\<close>
  Geometry :: Geometry

record AddressRecord =
  Street :: string
  HouseNumber :: string
  City :: string
  Lon :: real
  Lat :: real

section \<open>json.Unmarshal into slices of float64\<close>

text \<open>
  \<^verbatim>\<open>json.Unmarshal(raw, &coords)\<close> with \<open>coords\<close> a fresh nil slice. The result is
  \<open>None\<close> when Unmarshal returns an error; the source reads \<open>coords\<close> only when the
  error is nil. A JSON null leaves a slice nil and a \<^verbatim>\<open>float64\<close> element zero, without
  an error; a value of any other kind than the target's is an UnmarshalTypeError; an
  empty raw message is a syntax error.
\<close>

fun unmarshalFloat64 :: "json \<Rightarrow> real option" where
  "unmarshalFloat64 (JNum x) = Some x"
| "unmarshalFloat64 JNull = Some 0"
| "unmarshalFloat64 _ = None"

fun unmarshalSlice :: "(json \<Rightarrow> 'a option) \<Rightarrow> json \<Rightarrow> 'a list option" where
  "unmarshalSlice elem JNull = Some []"
| "unmarshalSlice elem (JArr js) = those (map elem js)"
| "unmarshalSlice elem _ = None"

definition Unmarshal :: "(json \<Rightarrow> 'a option) \<Rightarrow> json option \<Rightarrow> 'a option" where
  "Unmarshal target raw = (case raw of None \<Rightarrow> None | Some j \<Rightarrow> target j)"

abbreviation floats1 :: "json \<Rightarrow> real list option" where
  "floats1 \<equiv> unmarshalSlice unmarshalFloat64"

abbreviation floats2 :: "json \<Rightarrow> real list list option" where
  "floats2 \<equiv> unmarshalSlice floats1"

abbreviation floats3 :: "json \<Rightarrow> real list list list option" where
  "floats3 \<equiv> unmarshalSlice floats2"

abbreviation floats4 :: "json \<Rightarrow> real list list list list option" where
  "floats4 \<equiv> unmarshalSlice floats3"

section \<open>Unmarshalling a feature\<close>

text \<open>
  A JSON value decoded into \<^verbatim>\<open>interface{}\<close>; \<open>None\<close> when the decoder records an error
  (a number outside \<^verbatim>\<open>float64\<close>). Of two members of an object with the same key the
  later one stays.
\<close>

fun toAny :: "json \<Rightarrow> any option" where
  "toAny JNull = Some ANil"
| "toAny (JBool b) = Some (ABool b)"
| "toAny (JNum x) = Some (AFloat64 x)"
| "toAny JNumOutOfRange = None"
| "toAny (JStr s) = Some (AString s)"
| "toAny (JArr xs) = map_option ASlice (those (map toAny xs))"
| "toAny (JObj ms) =
     map_option (\<lambda>kvs. AMap (foldl (\<lambda>acc (k, v). AList.update k v acc) [] kvs))
       (those (map (\<lambda>(k, v). map_option (Pair k) (toAny v)) ms))"

text \<open>
  A key of a JSON object names a field of a struct when it is the field's name up to
  letter case. (The model folds the letters of ASCII only.)
\<close>

definition lowerASCII :: "string \<Rightarrow> string" where
  "lowerASCII s =
     map (\<lambda>c. if CHR ''A'' \<le> c \<and> c \<le> CHR ''Z'' then char_of (of_char c + (32 :: nat)) else c) s"

text \<open>
  A JSON value decoded into a \<^verbatim>\<open>string\<close> field: a string sets it, null leaves it,
  anything else is an error.
\<close>

definition unmarshalString :: "string \<Rightarrow> json \<Rightarrow> string option" where
  "unmarshalString old v = (case v of JStr s \<Rightarrow> Some s | JNull \<Rightarrow> Some old | _ \<Rightarrow> None)"

text \<open>
  The struct \<^verbatim>\<open>Geometry\<close>: the members of the object are decoded in order, an unknown
  key is skipped, \<^verbatim>\<open>coordinates\<close> keeps the raw value whatever it is.
\<close>

definition geometryField :: "Geometry \<Rightarrow> string \<times> json \<Rightarrow> Geometry option" where
  "geometryField g m =
     (if lowerASCII (fst m) = ''type'' then
        map_option (\<lambda>s. g\<lparr>Type := s\<rparr>) (unmarshalString (Type g) (snd m))
      else if lowerASCII (fst m) = ''coordinates'' then Some (g\<lparr>Coordinates := Some (snd m)\<rparr>)
      else Some g)"

definition unmarshalGeometry :: "Geometry \<Rightarrow> json \<Rightarrow> Geometry option" where
  "unmarshalGeometry g v =
     (case v of
        JObj ms \<Rightarrow> foldl (\<lambda>acc m. Option.bind acc (\<lambda>g'. geometryField g' m)) (Some g) ms
      | JNull \<Rightarrow> Some g
      | _ \<Rightarrow> None)"

text \<open>
  The map \<^verbatim>\<open>Properties\<close>: an object adds its members to the map, null makes the map
  nil, anything else is an error.
\<close>

definition unmarshalProperties :: "(string \<rightharpoonup> any) \<Rightarrow> json \<Rightarrow> (string \<rightharpoonup> any) option" where
  "unmarshalProperties old v =
     (case v of
        JObj ms \<Rightarrow>
          map_option (\<lambda>kvs. old ++ map_of (rev kvs))
            (those (map (\<lambda>m. map_option (Pair (fst m)) (toAny (snd m))) ms))
      | JNull \<Rightarrow> Some Map.empty
      | _ \<Rightarrow> None)"

definition featureField :: "Feature \<Rightarrow> string \<times> json \<Rightarrow> Feature option" where
  "featureField f m =
     (if lowerASCII (fst m) = ''type'' then
        map_option (\<lambda>s. f\<lparr>FeatureType := s\<rparr>) (unmarshalString (FeatureType f) (snd m))
      else if lowerASCII (fst m) = ''properties'' then
        map_option (\<lambda>p. f\<lparr>Properties := p\<rparr>) (unmarshalProperties (Properties f) (snd m))
      else if lowerASCII (fst m) = ''geometry'' then
        map_option (\<lambda>g. f\<lparr>Geometry := g\<rparr>) (unmarshalGeometry (Geometry f) (snd m))
      else Some f)"

definition zeroFeature :: Feature where
  "zeroFeature =
     \<lparr>FeatureType = [], Properties = Map.empty, Geometry = \<lparr>Type = [], Coordinates = None\<rparr>\<rparr>"

text \<open>
  \<^verbatim>\<open>d.unmarshal\<close> into the freshly declared \<^verbatim>\<open>var feature Feature\<close>: \<open>None\<close> when it
  returns an error. The decoder goes on after a type error and reports it at the end;
  since the caller drops the feature on any error, the model stops at the first.
\<close>

definition unmarshalFeature :: "json \<Rightarrow> Feature option" where
  "unmarshalFeature v =
     (case v of
        JObj ms \<Rightarrow>
          foldl (\<lambda>acc m. Option.bind acc (\<lambda>f. featureField f m)) (Some zeroFeature) ms
      | JNull \<Rightarrow> Some zeroFeature
      | _ \<Rightarrow> None)"

section \<open>extractAddressData\<close>

text \<open>An index expression \<^verbatim>\<open>xs[i]\<close> panics out of range.\<close>

datatype panic = IndexOutOfRange

definition index :: "'a list \<Rightarrow> nat \<Rightarrow> panic + 'a" where
  "index xs i = (if i < length xs then Inr (xs ! i) else Inl IndexOutOfRange)"

definition bindP :: "panic + 'a \<Rightarrow> ('a \<Rightarrow> panic + 'b) \<Rightarrow> panic + 'b" where
  "bindP m f = (case m of Inl p \<Rightarrow> Inl p | Inr x \<Rightarrow> f x)"

text \<open>\<^verbatim>\<open>lon, lat = c[0], c[1]\<close>\<close>

definition pair01 :: "real list \<Rightarrow> panic + (real \<times> real) option" where
  "pair01 c = bindP (index c 0) (\<lambda>lon. bindP (index c 1) (\<lambda>lat. Inr (Some (lon, lat))))"

text \<open>
  The switch on \<^verbatim>\<open>feature.Geometry.Type\<close> (main.go, lines 519 to 542). The result is
  the pair \<open>(lon, lat)\<close> after the switch, \<open>(0, 0)\<close> where no case assigned it;
  \<open>Inr None\<close> is the default case, which returns \<^verbatim>\<open>nil, false\<close>. The conditions are
  evaluated left to right as \<^verbatim>\<open>&&\<close> does, an index expression only after the
  conditions before it held.
\<close>

definition coordinates :: "Geometry \<Rightarrow> panic + (real \<times> real) option" where
  "coordinates g =
    (if Type g = ''Point'' then
       (case Unmarshal floats1 (Coordinates g) of
          None \<Rightarrow> Inr (Some (0, 0))
        | Some coords \<Rightarrow>
            if length coords \<ge> 2 then pair01 coords else Inr (Some (0, 0)))
     else if Type g = ''LineString'' then
       (case Unmarshal floats2 (Coordinates g) of
          None \<Rightarrow> Inr (Some (0, 0))
        | Some coords \<Rightarrow>
            if length coords > 0 then
              bindP (index coords 0) (\<lambda>c0.
                if length c0 \<ge> 2 then pair01 c0 else Inr (Some (0, 0)))
            else Inr (Some (0, 0)))
     else if Type g = ''Polygon'' then
       (case Unmarshal floats3 (Coordinates g) of
          None \<Rightarrow> Inr (Some (0, 0))
        | Some coords \<Rightarrow>
            if length coords > 0 then
              bindP (index coords 0) (\<lambda>c0.
                if length c0 > 0 then
                  bindP (index c0 0) (\<lambda>c00.
                    if length c00 \<ge> 2 then pair01 c00 else Inr (Some (0, 0)))
                else Inr (Some (0, 0)))
            else Inr (Some (0, 0)))
     else if Type g = ''MultiPolygon'' then
       (case Unmarshal floats4 (Coordinates g) of
          None \<Rightarrow> Inr (Some (0, 0))
        | Some coords \<Rightarrow>
            if length coords > 0 then
              bindP (index coords 0) (\<lambda>c0.
                if length c0 > 0 then
                  bindP (index c0 0) (\<lambda>c00.
                    if length c00 > 0 then
                      bindP (index c00 0) (\<lambda>c000.
                        if length c000 \<ge> 2 then pair01 c000 else Inr (Some (0, 0)))
                    else Inr (Some (0, 0)))
                else Inr (Some (0, 0)))
            else Inr (Some (0, 0)))
     else Inr None)"

text \<open>The comma-ok map lookup \<^verbatim>\<open>v, ok := m[k]\<close>: the zero value (nil) when absent.\<close>

definition lookup :: "(string \<rightharpoonup> any) \<Rightarrow> string \<Rightarrow> any \<times> bool" where
  "lookup m k = (case m k of None \<Rightarrow> (ANil, False) | Some v \<Rightarrow> (v, True))"

text \<open>
  \<^verbatim>\<open>extractAddressData\<close>: \<open>Inr None\<close> is \<^verbatim>\<open>nil, false\<close>, \<open>Inr (Some r)\<close> is
  \<^verbatim>\<open>&r, true\<close>, \<open>Inl p\<close> a run-time panic.
\<close>

definition extractAddressData ::
    "(real \<Rightarrow> string) \<Rightarrow> Feature \<Rightarrow> panic + AddressRecord option" where
  "extractAddressData ff feature =
    (let properties = Properties feature;
         (street, hasStreet) = lookup properties ''addr:street'';
         houseNumber = fst (lookup properties ''addr:housenumber'');
         (city0, hasCity) = lookup properties ''addr:city'';
         city =
           (if \<not> hasCity then
              (case properties ''addr:town'' of
                 Some town \<Rightarrow> town
               | None \<Rightarrow>
                  (case properties ''addr:village'' of
                     Some village \<Rightarrow> village
                   | None \<Rightarrow> AString ''''))
            else city0)
     in if \<not> hasStreet then Inr None
        else
          (case coordinates (Geometry feature) of
             Inl p \<Rightarrow> Inl p
           | Inr None \<Rightarrow> Inr None
           | Inr (Some (lon, lat)) \<Rightarrow>
               if lon = 0 \<and> lat = 0 then Inr None
               else Inr (Some \<lparr>Street = sprintf_v ff street,
                                HouseNumber = sprintf_v ff houseNumber,
                                City = sprintf_v ff city,
                                Lon = lon, Lat = lat\<rparr>)))"

section \<open>The SQLite store\<close>

text \<open>
  The table \<^verbatim>\<open>addresses\<close> as \<^verbatim>\<open>CREATE TABLE\<close> declares it (main.go, lines 243 to
  253): \<^verbatim>\<open>id INTEGER PRIMARY KEY AUTOINCREMENT\<close>, three text columns, two real
  columns, and \<^verbatim>\<open>UNIQUE(street, house_number, city)\<close>. The text columns are compared
  byte by byte (the BINARY collation).
\<close>

record row =
  rowid :: nat
  street :: string
  house_number :: string
  city :: string
  longitude :: real
  latitude :: real

record tables =
  addresses :: "row list"  \<comment> \<open>in insertion order\<close>
  seq :: nat  \<comment> \<open>the largest id handed out so far (\<^verbatim>\<open>sqlite_sequence\<close>)\<close>

definition natural_key :: "row \<Rightarrow> string \<times> string \<times> string" where
  "natural_key r = (street r, house_number r, city r)"

definition record_key :: "AddressRecord \<Rightarrow> string \<times> string \<times> string" where
  "record_key a = (Street a, HouseNumber a, City a)"

text \<open>
  One row of \<^verbatim>\<open>INSERT OR IGNORE INTO addresses (street, house_number, city, longitude,
  latitude) VALUES (?, ?, ?, ?, ?)\<close>: a row whose key the table already holds is
  skipped; an id, once handed out, is not handed out again.
\<close>

definition insert_or_ignore :: "tables \<Rightarrow> AddressRecord \<Rightarrow> tables" where
  "insert_or_ignore t a =
     (if \<exists>r \<in> set (addresses t). natural_key r = record_key a
      then t\<lparr>seq := Suc (seq t)\<rparr>
      else t\<lparr>addresses := addresses t @
                [\<lparr>rowid = Suc (seq t), street = Street a, house_number = HouseNumber a,
                   city = City a, longitude = Lon a, latitude = Lat a\<rparr>],
              seq := Suc (seq t)\<rparr>)"

text \<open>
  A transaction works on its own copy of the tables; \<open>written\<close> lists the records its
  statements were given. The connection holds the committed tables and, for every
  commit in order, the records that transaction was given. The store of the model does
  not fail: the \<open>Inl\<close> branches of its callers are those of the source.
\<close>

datatype error = EOF | SyntaxError | UnmarshalTypeError | SQLError | Panicked panic

record txn =
  work :: tables
  written :: "AddressRecord list"

record fts_row =
  fts_rowid :: nat
  fts_street :: string
  fts_house_number :: string
  fts_city :: string

record database =
  committed :: tables
  commits :: "AddressRecord list list"
  address_fts :: "fts_row list option"  \<comment> \<open>\<open>None\<close> until the virtual table is created\<close>

definition emptyDatabase :: database where
  "emptyDatabase =
     \<lparr>committed = \<lparr>addresses = [], seq = 0\<rparr>, commits = [], address_fts = None\<rparr>"

definition Begin :: "database \<Rightarrow> error + txn" where
  "Begin d = Inr \<lparr>work = committed d, written = []\<rparr>"

definition Exec_insert :: "txn \<Rightarrow> AddressRecord list \<Rightarrow> error + txn" where
  "Exec_insert t rs =
     Inr \<lparr>work = foldl insert_or_ignore (work t) rs, written = written t @ rs\<rparr>"

definition Commit :: "database \<Rightarrow> txn \<Rightarrow> error + database" where
  "Commit d t = Inr (d\<lparr>committed := work t, commits := commits d @ [written t]\<rparr>)"

section \<open>bulkInsert\<close>

definition maxRecordsPerBatch :: nat where
  "maxRecordsPerBatch = 500"

text \<open>
  The loop \<^verbatim>\<open>for i := 0; i < len(records); i += maxRecordsPerBatch\<close>. The inner loop
  over \<^verbatim>\<open>currentBatch\<close> builds one multi-row statement with the records' five fields as
  its arguments; \<open>Exec_insert\<close> executes it.
\<close>

function bulkInsertFrom :: "nat \<Rightarrow> txn \<Rightarrow> AddressRecord list \<Rightarrow> error + txn" where
  "bulkInsertFrom i t records =
     (if i < length records then
        (let e = (if i + maxRecordsPerBatch > length records then length records
                  else i + maxRecordsPerBatch);
             currentBatch = take (e - i) (drop i records)
         in case Exec_insert t currentBatch of
              Inl err \<Rightarrow> Inl err
            | Inr t' \<Rightarrow> bulkInsertFrom (i + maxRecordsPerBatch) t' records)
      else Inr t)"
  by pat_completeness auto
termination
  by (relation "measure (\<lambda>(i, t, records). length records - i)")
     (auto simp: maxRecordsPerBatch_def)

declare bulkInsertFrom.simps [simp del]

definition bulkInsert :: "txn \<Rightarrow> AddressRecord list \<Rightarrow> error + txn" where
  "bulkInsert t records =
     (if length records = 0 then Inr t else bulkInsertFrom 0 t records)"

section \<open>The batch loader of processGeoJSON\<close>

text \<open>
  The local variables of \<^verbatim>\<open>processGeoJSON\<close> that the feature loop reads and writes.
  Times are nanoseconds; \<open>ticks\<close> counts the readings of the clock taken so far, and
  the \<open>k\<close>-th reading is \<open>clk k\<close> for the clock \<open>clk\<close> of the run. The throughput figures
  are printed only and are left out; their clock reading is kept.
\<close>

record loader =
  db :: database
  tx :: txn
  batch :: "AddressRecord list"
  totalCount :: nat
  batchStartTime :: int
  lastReportTime :: int
  ticks :: nat

definition batchSize :: nat where
  "batchSize = 500000"

definition maxBatchDuration :: int where
  "maxBatchDuration = 5 * 1000000000"

text \<open>Lines 319 to 361: insert the batch, commit, report, begin anew, clear the batch.\<close>

definition flush :: "(nat \<Rightarrow> int) \<Rightarrow> loader \<Rightarrow> error + loader" where
  "flush clk s =
     (case bulkInsert (tx s) (batch s) of
        Inl err \<Rightarrow> Inl err
      | Inr t1 \<Rightarrow>
         (case Commit (db s) t1 of
            Inl err \<Rightarrow> Inl err
          | Inr d1 \<Rightarrow>
             (let now = clk (ticks s);
                  report = (if now - lastReportTime s > 0 then now else lastReportTime s)
              in case Begin d1 of
                   Inl err \<Rightarrow> Inl err
                 | Inr t2 \<Rightarrow>
                     Inr (s\<lparr>db := d1, tx := t2, batch := [],
                            batchStartTime := clk (ticks s + 1),
                            lastReportTime := report,
                            ticks := ticks s + 2\<rparr>))))"

text \<open>
  One turn of the loop over the features (lines 305 to 363), given what
  \<^verbatim>\<open>decoder.Decode(&feature)\<close> delivered: \<open>None\<close> for an error (\<^verbatim>\<open>continue\<close>). The
  clock is read for \<^verbatim>\<open>time.Since\<close> only when the size test failed, as \<^verbatim>\<open>||\<close> does.
\<close>

definition loopBody ::
    "(real \<Rightarrow> string) \<Rightarrow> (nat \<Rightarrow> int) \<Rightarrow> loader \<Rightarrow> Feature option \<Rightarrow> error + loader" where
  "loopBody ff clk s decoded =
     (case decoded of
        None \<Rightarrow> Inr s
      | Some feature \<Rightarrow>
         (case extractAddressData ff feature of
            Inl p \<Rightarrow> Inl (Panicked p)
          | Inr None \<Rightarrow> Inr s
          | Inr (Some record) \<Rightarrow>
             (let s1 = s\<lparr>batch := batch s @ [record], totalCount := totalCount s + 1\<rparr>
              in if length (batch s1) \<ge> batchSize then flush clk s1
                 else
                   (let since = clk (ticks s1) - batchStartTime s1;
                        s2 = s1\<lparr>ticks := ticks s1 + 1\<rparr>
                    in if since \<ge> maxBatchDuration then flush clk s2 else Inr s2))))"

text \<open>The loop over the features, on the sequence of what \<^verbatim>\<open>Decode\<close> delivers.\<close>

fun featuresLoop ::
    "(real \<Rightarrow> string) \<Rightarrow> (nat \<Rightarrow> int) \<Rightarrow> loader \<Rightarrow> Feature option list \<Rightarrow> error + loader" where
  "featuresLoop ff clk s [] = Inr s"
| "featuresLoop ff clk s (decoded # rest) =
     (case loopBody ff clk s decoded of
        Inl err \<Rightarrow> Inl err
      | Inr s' \<Rightarrow> featuresLoop ff clk s' rest)"

text \<open>Lines 366 to 377: the last, partial batch.\<close>

definition finalFlush :: "loader \<Rightarrow> error + loader" where
  "finalFlush s =
     (if length (batch s) > 0 then
        (case bulkInsert (tx s) (batch s) of
           Inl err \<Rightarrow> Inl err
         | Inr t1 \<Rightarrow>
            (case Commit (db s) t1 of
               Inl err \<Rightarrow> Inl err
             | Inr d1 \<Rightarrow> Inr (s\<lparr>db := d1, tx := t1\<rparr>)))
      else Inr s)"

text \<open>
  The freshly created store, the first transaction and the loader's variables as they
  stand when the loop over the features begins; the clock was read twice
  (\<^verbatim>\<open>startTime\<close>, \<^verbatim>\<open>batchStartTime\<close>).
\<close>

definition initialLoader :: "(nat \<Rightarrow> int) \<Rightarrow> error + loader" where
  "initialLoader clk =
     (case Begin emptyDatabase of
        Inl err \<Rightarrow> Inl err
      | Inr t0 \<Rightarrow>
          Inr \<lparr>db = emptyDatabase, tx = t0, batch = [], totalCount = 0,
               batchStartTime = clk 1, lastReportTime = clk 0, ticks = 2\<rparr>)"

text \<open>The features' part of the import: the loop and the last batch.\<close>

definition loadFeatures ::
    "(real \<Rightarrow> string) \<Rightarrow> (nat \<Rightarrow> int) \<Rightarrow> loader \<Rightarrow> Feature option list \<Rightarrow> error + loader" where
  "loadFeatures ff clk s items =
     (case featuresLoop ff clk s items of
        Inl err \<Rightarrow> Inl err
      | Inr s1 \<Rightarrow> finalFlush s1)"

section \<open>json.Decoder\<close>

text \<open>
  The unread input of a \<^verbatim>\<open>json.Decoder\<close> over a syntactically valid document: a
  value that no token was taken from yet is \<open>Val v\<close>; entering an array or an object
  with \<^verbatim>\<open>Token\<close> lays out its elements or members, the separators between them and
  its closing bracket. A key is laid out as the string it is: like the decoder, the
  model tells a key from a string value by \<open>tokenState\<close> only.
\<close>

datatype input = Val json | Colon | Comma | EndArr | EndObj

fun elems :: "json list \<Rightarrow> input list" where
  "elems [] = []"
| "elems [x] = [Val x]"
| "elems (x # y # r) = Val x # Comma # elems (y # r)"

fun members :: "(string \<times> json) list \<Rightarrow> input list" where
  "members [] = []"
| "members [(k, v)] = [Val (JStr k), Colon, Val v]"
| "members ((k, v) # m # r) = Val (JStr k) # Colon # Val v # Comma # members (m # r)"

datatype tokenState = tokenTopValue | tokenArrayStart | tokenArrayValue | tokenArrayComma
  | tokenObjectStart | tokenObjectKey | tokenObjectColon | tokenObjectValue
  | tokenObjectComma

text \<open>A \<^verbatim>\<open>json.Token\<close>: a delimiter, a string (a key or a value), a number, a Boolean, nil.\<close>

datatype token = Delim char | TString string | TFloat64 real | TBool bool | TNil

record Decoder =
  buf :: "input list"
  tokenState :: tokenState
  tokenStack :: "tokenState list"  \<comment> \<open>the top first\<close>

definition NewDecoder :: "json \<Rightarrow> Decoder" where
  "NewDecoder doc = \<lparr>buf = [Val doc], tokenState = tokenTopValue, tokenStack = []\<rparr>"

text \<open>\<^verbatim>\<open>More\<close>: the next byte exists and is neither \<^verbatim>\<open>]\<close> nor \<^verbatim>\<open>}\<close>.\<close>

definition More :: "Decoder \<Rightarrow> bool" where
  "More d = (case buf d of [] \<Rightarrow> False | EndArr # r \<Rightarrow> False | EndObj # r \<Rightarrow> False
             | _ \<Rightarrow> True)"

definition tokenValueAllowed :: "tokenState \<Rightarrow> bool" where
  "tokenValueAllowed st =
     (st = tokenTopValue \<or> st = tokenArrayStart \<or> st = tokenArrayValue \<or> st = tokenObjectValue)"

definition tokenValueEnd :: "tokenState \<Rightarrow> tokenState" where
  "tokenValueEnd st =
     (if st = tokenArrayStart \<or> st = tokenArrayValue then tokenArrayComma
      else if st = tokenObjectValue then tokenObjectComma
      else st)"

definition scalarToken ::
    "tokenState \<Rightarrow> tokenState list \<Rightarrow> token \<Rightarrow> input list \<Rightarrow> error + token \<times> Decoder" where
  "scalarToken st stk t r =
     (if \<not> tokenValueAllowed st then Inl SyntaxError
      else Inr (t, \<lparr>buf = r, tokenState = tokenValueEnd st, tokenStack = stk\<rparr>))"

text \<open>
  \<^verbatim>\<open>Token\<close>: a colon or a comma that the state expects is skipped; a bracket is
  returned as a delimiter and the state pushed or popped; a string where a key is
  expected is the key; any other scalar is a value. A number outside \<^verbatim>\<open>float64\<close>
  fails to decode.
\<close>

fun tokenFrom :: "tokenState \<Rightarrow> tokenState list \<Rightarrow> input list \<Rightarrow> error + token \<times> Decoder" where
  "tokenFrom st stk [] = Inl EOF"
| "tokenFrom st stk (Colon # r) =
     (if st \<noteq> tokenObjectColon then Inl SyntaxError else tokenFrom tokenObjectValue stk r)"
| "tokenFrom st stk (Comma # r) =
     (if st = tokenArrayComma then tokenFrom tokenArrayValue stk r
      else if st = tokenObjectComma then tokenFrom tokenObjectKey stk r
      else Inl SyntaxError)"
| "tokenFrom st stk (EndArr # r) =
     (if st \<noteq> tokenArrayStart \<and> st \<noteq> tokenArrayComma then Inl SyntaxError
      else (case stk of
              [] \<Rightarrow> Inl (Panicked IndexOutOfRange)
            | saved # stk' \<Rightarrow>
                Inr (Delim CHR '']'',
                     \<lparr>buf = r, tokenState = tokenValueEnd saved, tokenStack = stk'\<rparr>)))"
| "tokenFrom st stk (EndObj # r) =
     (if st \<noteq> tokenObjectStart \<and> st \<noteq> tokenObjectComma then Inl SyntaxError
      else (case stk of
              [] \<Rightarrow> Inl (Panicked IndexOutOfRange)
            | saved # stk' \<Rightarrow>
                Inr (Delim CHR ''}'',
                     \<lparr>buf = r, tokenState = tokenValueEnd saved, tokenStack = stk'\<rparr>)))"
| "tokenFrom st stk (Val v # r) =
     (case v of
        JArr xs \<Rightarrow>
          if \<not> tokenValueAllowed st then Inl SyntaxError
          else Inr (Delim CHR ''['',
                    \<lparr>buf = elems xs @ EndArr # r, tokenState = tokenArrayStart,
                     tokenStack = st # stk\<rparr>)
      | JObj ms \<Rightarrow>
          if \<not> tokenValueAllowed st then Inl SyntaxError
          else Inr (Delim CHR ''{'',
                    \<lparr>buf = members ms @ EndObj # r, tokenState = tokenObjectStart,
                     tokenStack = st # stk\<rparr>)
      | JStr s \<Rightarrow>
          if st = tokenObjectStart \<or> st = tokenObjectKey
          then Inr (TString s, \<lparr>buf = r, tokenState = tokenObjectColon, tokenStack = stk\<rparr>)
          else scalarToken st stk (TString s) r
      | JNum x \<Rightarrow> scalarToken st stk (TFloat64 x) r
      | JNumOutOfRange \<Rightarrow>
          if \<not> tokenValueAllowed st then Inl SyntaxError else Inl UnmarshalTypeError
      | JBool b \<Rightarrow> scalarToken st stk (TBool b) r
      | JNull \<Rightarrow> scalarToken st stk TNil r)"

definition Token :: "Decoder \<Rightarrow> error + token \<times> Decoder" where
  "Token d = tokenFrom (tokenState d) (tokenStack d) (buf d)"

text \<open>
  \<^verbatim>\<open>Decode\<close>: after an array element or an object key the separator is consumed
  first; where the state allows no value, \<^verbatim>\<open>Decode\<close> fails and consumes nothing;
  otherwise it reads one whole value and unmarshals it into the target. \<open>unmarshal\<close>
  is \<^verbatim>\<open>d.unmarshal\<close> for the target's type, \<open>None\<close> for its error; the value is
  consumed also when unmarshalling fails.
\<close>

definition tokenPrepareForDecode :: "Decoder \<Rightarrow> error + Decoder" where
  "tokenPrepareForDecode d =
     (if tokenState d = tokenArrayComma then
        (case buf d of
           [] \<Rightarrow> Inl EOF
         | Comma # r \<Rightarrow> Inr (d\<lparr>buf := r, tokenState := tokenArrayValue\<rparr>)
         | _ \<Rightarrow> Inl SyntaxError)
      else if tokenState d = tokenObjectColon then
        (case buf d of
           [] \<Rightarrow> Inl EOF
         | Colon # r \<Rightarrow> Inr (d\<lparr>buf := r, tokenState := tokenObjectValue\<rparr>)
         | _ \<Rightarrow> Inl SyntaxError)
      else Inr d)"

definition Decode :: "(json \<Rightarrow> 'a option) \<Rightarrow> Decoder \<Rightarrow> (error + 'a) \<times> Decoder" where
  "Decode unmarshal d =
     (case tokenPrepareForDecode d of
        Inl err \<Rightarrow> (Inl err, d)
      | Inr d1 \<Rightarrow>
          if \<not> tokenValueAllowed (tokenState d1) then (Inl SyntaxError, d1)
          else
            (case buf d1 of
               Val v # r \<Rightarrow>
                 ((case unmarshal v of None \<Rightarrow> Inl UnmarshalTypeError | Some x \<Rightarrow> Inr x),
                  d1\<lparr>buf := r, tokenState := tokenValueEnd (tokenState d1)\<rparr>)
             | [] \<Rightarrow> (Inl EOF, d1)
             | _ \<Rightarrow> (Inl SyntaxError, d1)))"

section \<open>processGeoJSON\<close>

text \<open>
  The loop \<^verbatim>\<open>for decoder.More()\<close> over the features (lines 304 to 364). It need not
  end: \<^verbatim>\<open>Decode\<close> can fail without consuming input. \<open>None\<close> is a run that has not
  ended within the fuel.
\<close>

fun forFeatures ::
    "(json \<Rightarrow> Feature option) \<Rightarrow> (real \<Rightarrow> string) \<Rightarrow> (nat \<Rightarrow> int) \<Rightarrow> nat \<Rightarrow> Decoder \<Rightarrow> loader
       \<Rightarrow> (error + Decoder \<times> loader) option" where
  "forFeatures unm ff clk 0 d s = None"
| "forFeatures unm ff clk (Suc n) d s =
     (if More d then
        (case Decode unm d of
           (r, d') \<Rightarrow>
             (case loopBody ff clk s (case r of Inl err \<Rightarrow> None | Inr feature \<Rightarrow> Some feature) of
                Inl err \<Rightarrow> Some (Inl err)
              | Inr s' \<Rightarrow> forFeatures unm ff clk n d' s'))
      else Some (Inr (d, s)))"

text \<open>The loop \<^verbatim>\<open>for decoder.More()\<close> over the tokens (lines 289 to 379).\<close>

fun forTokens ::
    "(json \<Rightarrow> Feature option) \<Rightarrow> (real \<Rightarrow> string) \<Rightarrow> (nat \<Rightarrow> int) \<Rightarrow> nat \<Rightarrow> Decoder \<Rightarrow> loader
       \<Rightarrow> (error + Decoder \<times> loader) option" where
  "forTokens unm ff clk 0 d s = None"
| "forTokens unm ff clk (Suc n) d s =
     (if More d then
        (case Token d of
           Inl err \<Rightarrow> Some (Inl err)
         | Inr (t, d1) \<Rightarrow>
             if t = TString ''features'' then
               (case Token d1 of
                  Inl err \<Rightarrow> Some (Inl err)
                | Inr (t2, d2) \<Rightarrow>
                    (case forFeatures unm ff clk n d2 s of
                       None \<Rightarrow> None
                     | Some (Inl err) \<Rightarrow> Some (Inl err)
                     | Some (Inr (d3, s1)) \<Rightarrow>
                         (case finalFlush s1 of
                            Inl err \<Rightarrow> Some (Inl err)
                          | Inr s2 \<Rightarrow> forTokens unm ff clk n d3 s2)))
             else forTokens unm ff clk n d1 s)
      else Some (Inr (d, s)))"

text \<open>
  After the import: the indices, \<^verbatim>\<open>ANALYZE\<close>, \<^verbatim>\<open>PRAGMA optimize\<close> and \<^verbatim>\<open>VACUUM\<close>
  leave the rows as they are; the virtual table \<^verbatim>\<open>address_fts\<close> is created and filled
  with \<^verbatim>\<open>SELECT id, street, house_number, city FROM addresses\<close>.
\<close>

definition buildIndex :: "database \<Rightarrow> error + database" where
  "buildIndex d =
     Inr (d\<lparr>address_fts :=
            Some (map (\<lambda>r. \<lparr>fts_rowid = rowid r, fts_street = street r,
                             fts_house_number = house_number r, fts_city = city r\<rparr>)
                   (addresses (committed d)))\<rparr>)"

text \<open>
  \<^verbatim>\<open>processGeoJSON\<close> on the document that \<^verbatim>\<open>filtered.geojson\<close> holds: a fresh store,
  the first token skipped, the loop over the tokens, the indices and the full-text
  table. \<open>unm\<close> is the unmarshalling of a JSON value into a \<^verbatim>\<open>Feature\<close>.
\<close>

definition processGeoJSON ::
    "(json \<Rightarrow> Feature option) \<Rightarrow> (real \<Rightarrow> string) \<Rightarrow> (nat \<Rightarrow> int) \<Rightarrow> nat \<Rightarrow> json
       \<Rightarrow> (error + database) option" where
  "processGeoJSON unm ff clk fuel doc =
     (case Token (NewDecoder doc) of
        Inl err \<Rightarrow> Some (Inl err)
      | Inr (t, d1) \<Rightarrow>
          (case initialLoader clk of
             Inl err \<Rightarrow> Some (Inl err)
           | Inr s0 \<Rightarrow>
               (case forTokens unm ff clk fuel d1 s0 of
                  None \<Rightarrow> None
                | Some (Inl err) \<Rightarrow> Some (Inl err)
                | Some (Inr (d, s)) \<Rightarrow> Some (buildIndex (db s)))))"

section \<open>The full-text table and its tokenizer\<close>

text \<open>
  The \<^verbatim>\<open>tokenize\<close> option of \<^verbatim>\<open>CREATE VIRTUAL TABLE address_fts\<close> (main.go, line
  426), character for character. The statement is a raw string literal (between back
  quotes), in which a backslash has no special meaning, and SQL knows no backslash
  escapes: the quoted argument after \<^verbatim>\<open>tokenchars\<close> is the four characters backslash,
  \<^verbatim>\<open>x\<close>, \<^verbatim>\<open>2\<close>, \<^verbatim>\<open>d\<close>.
\<close>

definition tokenizeOption :: string where
  "tokenizeOption =
     ''unicode61 remove_diacritics 0 tokenchars '' @
     [CHR 0x27, CHR 0x5C, CHR ''x'', CHR ''2'', CHR ''d'', CHR 0x27]"

text \<open>
  FTS5 splits the option at white space into the tokenizer's name and its arguments; an
  argument in single quotes is taken without the quotes. (A doubled quote inside a
  quoted argument, which stands for one quote, does not occur in the option.)
\<close>

fun fts5_args :: "string \<Rightarrow> bool \<Rightarrow> string \<Rightarrow> string list" where
  "fts5_args cur quoted [] = (if cur = [] then [] else [cur])"
| "fts5_args cur True (c # cs) =
     (if c = CHR 0x27 then cur # fts5_args [] False cs
      else fts5_args (cur @ [c]) True cs)"
| "fts5_args cur False (c # cs) =
     (if c = CHR '' '' then
        (if cur = [] then fts5_args [] False cs else cur # fts5_args [] False cs)
      else if c = CHR 0x27 \<and> cur = [] then fts5_args [] True cs
      else fts5_args (cur @ [c]) False cs)"

text \<open>The value of an option in the list of arguments \<open>name value name value ...\<close>.\<close>

fun optionValue :: "string \<Rightarrow> string list \<Rightarrow> string option" where
  "optionValue name (n # v # rest) = (if n = name then Some v else optionValue name rest)"
| "optionValue name _ = None"

definition tokenchars :: string where
  "tokenchars =
     (case optionValue ''tokenchars'' (tl (fts5_args [] False tokenizeOption)) of
        None \<Rightarrow> [] | Some v \<Rightarrow> v)"

text \<open>
  The \<^verbatim>\<open>unicode61\<close> tokenizer on the bytes of a UTF-8 text: letters and digits are
  token characters, and so are the characters of \<^verbatim>\<open>tokenchars\<close>; every other
  character of ASCII separates tokens; a token is a longest run of token characters,
  folded to lower case. With \<^verbatim>\<open>remove_diacritics 0\<close> no diacritic is removed. The
  bytes of a character outside ASCII are taken as token characters and left as they
  are: that is right for letters such as \<^verbatim>\<open>U+00DF\<close>, and the model covers no text
  with punctuation or upper case outside ASCII.
\<close>

definition isAlnum :: "char \<Rightarrow> bool" where
  "isAlnum c =
     ((CHR ''0'' \<le> c \<and> c \<le> CHR ''9'') \<or> (CHR ''A'' \<le> c \<and> c \<le> CHR ''Z'') \<or>
      (CHR ''a'' \<le> c \<and> c \<le> CHR ''z'') \<or> CHR 0x80 \<le> c)"

definition isTokenChar :: "char \<Rightarrow> bool" where
  "isTokenChar c = (isAlnum c \<or> c \<in> set tokenchars)"

definition foldCase :: "char \<Rightarrow> char" where
  "foldCase c =
     (if CHR ''A'' \<le> c \<and> c \<le> CHR ''Z'' then char_of (of_char c + (32 :: nat)) else c)"

fun tokensFrom :: "string \<Rightarrow> string \<Rightarrow> string list" where
  "tokensFrom cur [] = (if cur = [] then [] else [cur])"
| "tokensFrom cur (c # cs) =
     (if isTokenChar c then tokensFrom (cur @ [foldCase c]) cs
      else if cur = [] then tokensFrom [] cs
      else cur # tokensFrom [] cs)"

definition unicode61 :: "string \<Rightarrow> string list" where
  "unicode61 text = tokensFrom [] text"

section \<open>searchAddresses\<close>

text \<open>
  What the query asks of FTS5, as parameters: \<open>fts_match q\<close> is the row filter that
  \<^verbatim>\<open>address_fts MATCH q\<close> compiles to, \<open>None\<close> when FTS5 rejects the expression;
  \<open>fts_rank q f\<close> is the column \<^verbatim>\<open>rank\<close> of a matching row (smaller is better);
  \<open>fts_highlight q f i l r\<close> is \<^verbatim>\<open>highlight(address_fts, i, l, r)\<close> on that row.
\<close>

record fts5 =
  fts_match :: "string \<Rightarrow> (fts_row \<Rightarrow> bool) option"
  fts_rank :: "string \<Rightarrow> fts_row \<Rightarrow> real"
  fts_highlight :: "string \<Rightarrow> fts_row \<Rightarrow> nat \<Rightarrow> string \<Rightarrow> string \<Rightarrow> string"

text \<open>A row of the result, as \<^verbatim>\<open>rows.Scan\<close> reads its nine columns.\<close>

record hit =
  hitStreet :: string
  hitHouseNumber :: string
  hitCity :: string
  hitLon :: real
  hitLat :: real
  streetMatch :: string
  houseMatch :: string
  cityMatch :: string
  rank :: real

definition hitOf :: "fts5 \<Rightarrow> string \<Rightarrow> fts_row \<Rightarrow> row \<Rightarrow> hit" where
  "hitOf eng q f a =
     \<lparr>hitStreet = street a, hitHouseNumber = house_number a, hitCity = city a,
      hitLon = longitude a, hitLat = latitude a,
      streetMatch = fts_highlight eng q f 0 ''<b>'' ''</b>'',
      houseMatch = fts_highlight eng q f 1 ''<b>'' ''</b>'',
      cityMatch = fts_highlight eng q f 2 ''<b>'' ''</b>'',
      rank = fts_rank eng q f\<rparr>"

text \<open>\<^verbatim>\<open>FROM address_fts JOIN addresses a ON address_fts.rowid = a.id WHERE address_fts MATCH ?\<close>\<close>

definition matches :: "fts5 \<Rightarrow> string \<Rightarrow> (fts_row \<Rightarrow> bool) \<Rightarrow> fts_row list \<Rightarrow> row list \<Rightarrow> hit list" where
  "matches eng q m fs rows =
     concat (map (\<lambda>f. map (hitOf eng q f) (filter (\<lambda>a. rowid a = fts_rowid f) rows))
                 (filter m fs))"

text \<open>
  The query of lines 581 to 592, \<^verbatim>\<open>ORDER BY rank LIMIT 5\<close>; rows of equal rank are
  kept in the order of the join, one of the orders SQL allows.
\<close>

definition searchQuery :: "fts5 \<Rightarrow> database \<Rightarrow> string \<Rightarrow> error + hit list" where
  "searchQuery eng d q =
     (case address_fts d of
        None \<Rightarrow> Inl SQLError
      | Some fs \<Rightarrow>
          (case fts_match eng q of
             None \<Rightarrow> Inl SQLError
           | Some m \<Rightarrow>
               Inr (take 5 (sort_key rank (matches eng q m fs (addresses (committed d)))))))"

text \<open>The four example queries, in UTF-8.\<close>

definition queries :: "string list" where
  "queries =
     [''Berlin'',
      ''Hauptstra'' @ [CHR 0xC3, CHR 0x9F] @ ''e'',
      ''M'' @ [CHR 0xC3, CHR 0xBC] @ ''nchen Schillerstra'' @ [CHR 0xC3, CHR 0x9F] @ ''e'',
      ''Frankfurt am Main'']"

text \<open>
  The loop over the queries: what is printed for each, or the first error. An empty
  result prints \<^verbatim>\<open>Keine Ergebnisse gefunden.\<close> and the loop goes on.
\<close>

fun searchLoop :: "fts5 \<Rightarrow> database \<Rightarrow> string list \<Rightarrow> error + (string \<times> hit list) list" where
  "searchLoop eng d [] = Inr []"
| "searchLoop eng d (q # qs) =
     (case searchQuery eng d q of
        Inl err \<Rightarrow> Inl err
      | Inr found \<Rightarrow>
          (case searchLoop eng d qs of
             Inl err \<Rightarrow> Inl err
           | Inr rest \<Rightarrow> Inr ((q, found) # rest)))"

definition searchAddresses :: "fts5 \<Rightarrow> database \<Rightarrow> error + (string \<times> hit list) list" where
  "searchAddresses eng d = searchLoop eng d queries"

section \<open>The representative vertex of the specification\<close>

text \<open>
  The specification's side of the coordinate convention, written on the JSON payload
  and independent of \<open>coordinates\<close>. A position is an array of two or more numbers
  (longitude, latitude and, as GeoJSON allows, further ordinates). A well-formed payload
  nests positions as deep as its geometry type asks and is not empty at any level.
\<close>

fun is_number :: "json \<Rightarrow> bool" where
  "is_number (JNum x) = True"
| "is_number _ = False"

fun position :: "json \<Rightarrow> (real \<times> real) option" where
  "position (JArr (JNum x # JNum y # rest)) =
     (if list_all is_number rest then Some (x, y) else None)"
| "position _ = None"

definition is_position :: "json \<Rightarrow> bool" where
  "is_position j = (position j \<noteq> None)"

definition wf_line :: "json \<Rightarrow> bool" where
  "wf_line j = (case j of JArr ps \<Rightarrow> ps \<noteq> [] \<and> list_all is_position ps | _ \<Rightarrow> False)"

definition wf_polygon :: "json \<Rightarrow> bool" where
  "wf_polygon j = (case j of JArr rs \<Rightarrow> rs \<noteq> [] \<and> list_all wf_line rs | _ \<Rightarrow> False)"

definition wf_multipolygon :: "json \<Rightarrow> bool" where
  "wf_multipolygon j =
     (case j of JArr ps \<Rightarrow> ps \<noteq> [] \<and> list_all wf_polygon ps | _ \<Rightarrow> False)"

definition wellFormedPayload :: "string \<Rightarrow> json \<Rightarrow> bool" where
  "wellFormedPayload t j =
     (if t = ''Point'' then is_position j
      else if t = ''LineString'' then wf_line j
      else if t = ''Polygon'' then wf_polygon j
      else if t = ''MultiPolygon'' then wf_multipolygon j
      else False)"

definition first :: "json \<Rightarrow> json option" where
  "first j = (case j of JArr (x # xs) \<Rightarrow> Some x | _ \<Rightarrow> None)"

text \<open>
  Point: the point itself; LineString: the first vertex; Polygon: the first vertex of
  the outer (first) ring; MultiPolygon: the first vertex of the outer ring of the first
  polygon.
\<close>

definition representative :: "string \<Rightarrow> json \<Rightarrow> (real \<times> real) option" where
  "representative t j =
     (if t = ''Point'' then position j
      else if t = ''LineString'' then Option.bind (first j) position
      else if t = ''Polygon'' then
        Option.bind (first j) (\<lambda>ring. Option.bind (first ring) position)
      else if t = ''MultiPolygon'' then
        Option.bind (first j) (\<lambda>poly.
          Option.bind (first poly) (\<lambda>ring. Option.bind (first ring) position))
      else None)"

definition knownGeometry :: "string \<Rightarrow> bool" where
  "knownGeometry t =
     (t = ''Point'' \<or> t = ''LineString'' \<or> t = ''Polygon'' \<or> t = ''MultiPolygon'')"

text \<open>
  A payload that fails to parse, is empty, or lacks a complete first coordinate pair,
  read off the slices that \<open>Unmarshal\<close> delivers for the geometry type.
\<close>

definition noFirstPair :: "Geometry \<Rightarrow> bool" where
  "noFirstPair g =
    (if Type g = ''Point'' then
       (case Unmarshal floats1 (Coordinates g) of
          None \<Rightarrow> True | Some c \<Rightarrow> length c < 2)
     else if Type g = ''LineString'' then
       (case Unmarshal floats2 (Coordinates g) of
          None \<Rightarrow> True | Some [] \<Rightarrow> True | Some (c # cs) \<Rightarrow> length c < 2)
     else if Type g = ''Polygon'' then
       (case Unmarshal floats3 (Coordinates g) of
          None \<Rightarrow> True | Some [] \<Rightarrow> True | Some ([] # rs) \<Rightarrow> True
        | Some ((c # cs) # rs) \<Rightarrow> length c < 2)
     else if Type g = ''MultiPolygon'' then
       (case Unmarshal floats4 (Coordinates g) of
          None \<Rightarrow> True | Some [] \<Rightarrow> True | Some ([] # ps) \<Rightarrow> True
        | Some (([] # rs) # ps) \<Rightarrow> True
        | Some (((c # cs) # rs) # ps) \<Rightarrow> length c < 2)
     else False)"

text \<open>The city of a feature: city, else town, else village, else the empty string.\<close>

definition cityOf :: "(string \<rightharpoonup> any) \<Rightarrow> any" where
  "cityOf m = (case m ''addr:city'' of Some c \<Rightarrow> c | None \<Rightarrow>
      (case m ''addr:town'' of Some t \<Rightarrow> t | None \<Rightarrow>
        (case m ''addr:village'' of Some v \<Rightarrow> v | None \<Rightarrow> AString '''')))"

section \<open>The records of an import and its invariant\<close>

text \<open>
  The records the loop appends to the batch, in order, for a sequence of features as
  \<^verbatim>\<open>Decode\<close> delivers them.
\<close>

fun extracted :: "(real \<Rightarrow> string) \<Rightarrow> Feature option list \<Rightarrow> AddressRecord list" where
  "extracted ff [] = []"
| "extracted ff (None # rest) = extracted ff rest"
| "extracted ff (Some f # rest) =
     (case extractAddressData ff f of
        Inr (Some a) \<Rightarrow> a # extracted ff rest
      | _ \<Rightarrow> extracted ff rest)"

text \<open>The tables after \<^verbatim>\<open>CREATE TABLE\<close>.\<close>

definition emptyTables :: tables where
  "emptyTables = \<lparr>addresses = [], seq = 0\<rparr>"

text \<open>
  What holds of the loader's variables at the head of the loop over the features, for
  the records \<open>recs\<close> appended so far: the open transaction has executed nothing, the
  batch is below its maximum, every committed transaction was given at most the
  maximum, the committed transactions followed by the batch are \<open>recs\<close>, and the
  committed tables are what the committed transactions' records insert, in order, into
  the empty tables.
\<close>

definition loaderInv :: "loader \<Rightarrow> AddressRecord list \<Rightarrow> bool" where
  "loaderInv s recs =
     (work (tx s) = committed (db s) \<and> written (tx s) = [] \<and>
      length (batch s) < batchSize \<and>
      list_all (\<lambda>b. length b \<le> batchSize) (commits (db s)) \<and>
      concat (commits (db s)) @ batch s = recs \<and>
      committed (db s) = foldl insert_or_ignore emptyTables (concat (commits (db s))))"

text \<open>
  What a finished import leaves in the store, for the features \<open>items\<close> it decoded:
  no committed transaction above the maximum, the committed transactions' records are
  the extracted records in order, and the tables are what these insert into the empty
  tables.
\<close>

definition importedBy :: "(real \<Rightarrow> string) \<Rightarrow> database \<Rightarrow> Feature option list \<Rightarrow> bool" where
  "importedBy ff d items =
     (list_all (\<lambda>b. length b \<le> batchSize) (commits d) \<and>
      concat (commits d) = extracted ff items \<and>
      committed d = foldl insert_or_ignore emptyTables (extracted ff items))"

section \<open>Fixtures\<close>

definition fixtureNoHouseNumber :: Feature where
  "fixtureNoHouseNumber =
     \<lparr>FeatureType = ''Feature'',
      Properties = [''addr:street'' \<mapsto> AString ''Hauptstrasse'',
                    ''addr:city'' \<mapsto> AString ''Berlin''],
      Geometry = \<lparr>Type = ''Point'', Coordinates = Some (JArr [JNum 13, JNum 52])\<rparr>\<rparr>"

definition fixturePolygon :: Feature where
  "fixturePolygon =
     \<lparr>FeatureType = ''Feature'',
      Properties = [''addr:street'' \<mapsto> AString ''Ring''],
      Geometry = \<lparr>Type = ''Polygon'',
        Coordinates = Some (JArr [JArr [JArr [JNum 2, JNum 3], JArr [JNum 4, JNum 5],
                                        JArr [JNum 2, JNum 3]]])\<rparr>\<rparr>"

definition fixtureOrigin :: Feature where
  "fixtureOrigin =
     \<lparr>FeatureType = ''Feature'',
      Properties = [''addr:street'' \<mapsto> AString ''Hauptstrasse'',
                    ''addr:housenumber'' \<mapsto> AString ''1'',
                    ''addr:city'' \<mapsto> AString ''Berlin''],
      Geometry = \<lparr>Type = ''Point'', Coordinates = Some (JArr [JNum 0, JNum 0])\<rparr>\<rparr>"

definition fixtureShortLine :: Feature where
  "fixtureShortLine =
     \<lparr>FeatureType = ''Feature'',
      Properties = [''addr:street'' \<mapsto> AString ''Hauptstrasse''],
      Geometry = \<lparr>Type = ''LineString'', Coordinates = Some (JArr [JArr [JNum 7]])\<rparr>\<rparr>"

text \<open>Fixtures: point features with street, house number and city.\<close>

definition pointFeature :: "string \<Rightarrow> string \<Rightarrow> string \<Rightarrow> real \<Rightarrow> real \<Rightarrow> Feature" where
  "pointFeature s h c x y =
     \<lparr>FeatureType = ''Feature'',
      Properties = [''addr:street'' \<mapsto> AString s, ''addr:housenumber'' \<mapsto> AString h,
                    ''addr:city'' \<mapsto> AString c],
      Geometry = \<lparr>Type = ''Point'', Coordinates = Some (JArr [JNum x, JNum y])\<rparr>\<rparr>"

definition fixtureA :: Feature where
  "fixtureA = pointFeature ''Hauptstrasse'' ''1'' ''Berlin'' 13 52"

definition fixtureA2 :: Feature where
  "fixtureA2 = pointFeature ''Hauptstrasse'' ''1'' ''Berlin'' 14 53"

definition fixtureB :: Feature where
  "fixtureB = pointFeature ''Hauptstrasse'' ''2'' ''Berlin'' 13 53"

text \<open>A clock that advances three seconds from one reading to the next.\<close>

definition slowClock :: "nat \<Rightarrow> int" where
  "slowClock k = int k * 3000000000"

definition fixtureItems :: "Feature option list" where
  "fixtureItems = [Some fixtureA, None, Some fixtureA2, Some fixtureB]"

definition recordOf :: "string \<Rightarrow> string \<Rightarrow> string \<Rightarrow> real \<Rightarrow> real \<Rightarrow> AddressRecord" where
  "recordOf s h c x y = \<lparr>Street = s, HouseNumber = h, City = c, Lon = x, Lat = y\<rparr>"

text \<open>\<^verbatim>\<open>Haupt-Stra\<close>, the two bytes of \<^verbatim>\<open>U+00DF\<close>, \<^verbatim>\<open>e\<close>.\<close>

definition HauptStrasse :: string where
  "HauptStrasse = ''Haupt-Stra'' @ [CHR 0xC3, CHR 0x9F] @ ''e''"



text \<open>
  The JSON of a point feature, and a collection of four elements: two features with the
  same key, a number (which does not decode into a feature) and a feature with another
  key.
\<close>

definition jsonPoint :: "string \<Rightarrow> string \<Rightarrow> string \<Rightarrow> real \<Rightarrow> real \<Rightarrow> json" where
  "jsonPoint s h c x y =
     JObj [(''type'', JStr ''Feature''),
           (''properties'', JObj [(''addr:street'', JStr s), (''addr:housenumber'', JStr h),
                                  (''addr:city'', JStr c)]),
           (''geometry'', JObj [(''type'', JStr ''Point''),
                                (''coordinates'', JArr [JNum x, JNum y])])]"

definition fixtureElements :: "json list" where
  "fixtureElements =
     [jsonPoint ''Hauptstrasse'' ''1'' ''Berlin'' 13 52, JNum 5,
      jsonPoint ''Hauptstrasse'' ''1'' ''Berlin'' 14 53,
      jsonPoint ''Hauptstrasse'' ''2'' ''Berlin'' 13 53]"

definition fixtureCollection :: json where
  "fixtureCollection =
     JObj [(''type'', JStr ''FeatureCollection''), (''features'', JArr fixtureElements)]"

section \<open>Properties of the extractor\<close>

lemma those_map_Some:
  "(\<And>x. x \<in> set xs \<Longrightarrow> f x \<noteq> None) \<Longrightarrow> those (map f xs) = Some (map (\<lambda>x. the (f x)) xs)"
  by (induction xs) (auto split: option.splits)

lemma index_Cons0 [simp]: "index (x # xs) 0 = Inr x"
  by (simp add: index_def)

lemma index_Cons1 [simp]: "index (x # y # xs) (Suc 0) = Inr y"
  by (simp add: index_def)

lemma bindP_Inr [simp]: "bindP (Inr x) f = f x"
  by (simp add: bindP_def)

lemma pair01_Cons [simp]: "pair01 (x # y # r) = Inr (Some (x, y))"
  by (simp add: pair01_def)

lemma pair01_total: "2 \<le> length c \<Longrightarrow> \<exists>x y. pair01 c = Inr (Some (x, y))"
  by (cases c; cases "tl c") auto

lemma is_number_float: "is_number j \<Longrightarrow> unmarshalFloat64 j \<noteq> None"
  by (cases j) auto

lemma position_floats1:
  assumes "position p = Some (x, y)"
  shows "\<exists>r. floats1 p = Some (x # y # r)"
proof -
  from assms obtain rest where p: "p = JArr (JNum x # JNum y # rest)"
    and num: "list_all is_number rest"
    by (auto elim!: position.elims split: if_splits)
  have "those (map unmarshalFloat64 rest) = Some (map (\<lambda>j. the (unmarshalFloat64 j)) rest)"
    using num by (intro those_map_Some) (auto simp: list_all_iff is_number_float)
  then show ?thesis by (simp add: p)
qed

lemma unmarshalSlice_first:
  assumes "js \<noteq> []" and "\<And>x. x \<in> set js \<Longrightarrow> elem x \<noteq> None"
  shows "\<exists>cs. unmarshalSlice elem (JArr js) = Some (the (elem (hd js)) # cs)"
proof -
  have "those (map elem js) = Some (map (\<lambda>j. the (elem j)) js)"
    using assms(2) by (rule those_map_Some)
  with assms(1) show ?thesis by (cases js) auto
qed

lemma is_position_floats1: "is_position p \<Longrightarrow> \<exists>c. floats1 p = Some c"
  using position_floats1 by (fastforce simp: is_position_def)

lemma wf_line_floats2:
  assumes "wf_line l"
  shows "\<exists>p ps x y r cs. l = JArr (p # ps) \<and> position p = Some (x, y)
          \<and> floats2 l = Some ((x # y # r) # cs)"
proof -
  from assms obtain p ps where l: "l = JArr (p # ps)" and all: "list_all is_position (p # ps)"
    by (cases l; cases "case l of JArr ps \<Rightarrow> ps | _ \<Rightarrow> []") (auto simp: wf_line_def)
  then obtain x y where xy: "position p = Some (x, y)"
    by (auto simp: is_position_def)
  then obtain r where r: "floats1 p = Some (x # y # r)"
    using position_floats1 by blast
  have "\<exists>cs. floats2 (JArr (p # ps)) = Some (the (floats1 (hd (p # ps))) # cs)"
    using all by (intro unmarshalSlice_first) (auto simp: list_all_iff is_position_floats1)
  with l xy r show ?thesis by auto
qed

lemma wf_line_floats2_ne: "wf_line l \<Longrightarrow> \<exists>c. floats2 l = Some c"
  using wf_line_floats2 by fastforce

lemma wf_polygon_floats3:
  assumes "wf_polygon j"
  shows "\<exists>l ls p ps x y r cs ds. j = JArr (l # ls) \<and> l = JArr (p # ps) \<and> position p = Some (x, y)
          \<and> floats3 j = Some (((x # y # r) # cs) # ds)"
proof -
  from assms obtain l ls where j: "j = JArr (l # ls)" and all: "list_all wf_line (l # ls)"
    by (cases j; cases "case j of JArr ps \<Rightarrow> ps | _ \<Rightarrow> []") (auto simp: wf_polygon_def)
  then obtain p ps x y r cs where l: "l = JArr (p # ps)" "position p = Some (x, y)"
     "floats2 l = Some ((x # y # r) # cs)"
    using wf_line_floats2 by fastforce
  have "\<exists>ds. floats3 (JArr (l # ls)) = Some (the (floats2 (hd (l # ls))) # ds)"
    using all by (intro unmarshalSlice_first) (auto simp: list_all_iff wf_line_floats2_ne)
  with j l show ?thesis by auto
qed

lemma wf_polygon_floats3_ne: "wf_polygon l \<Longrightarrow> \<exists>c. floats3 l = Some c"
  using wf_polygon_floats3 by fastforce

lemma wf_multipolygon_floats4:
  assumes "wf_multipolygon j"
  shows "\<exists>g gs l ls p ps x y r cs ds es. j = JArr (g # gs) \<and> g = JArr (l # ls) \<and> l = JArr (p # ps)
          \<and> position p = Some (x, y)
          \<and> floats4 j = Some ((((x # y # r) # cs) # ds) # es)"
proof -
  from assms obtain g gs where j: "j = JArr (g # gs)" and all: "list_all wf_polygon (g # gs)"
    by (cases j; cases "case j of JArr ps \<Rightarrow> ps | _ \<Rightarrow> []") (auto simp: wf_multipolygon_def)
  then obtain l ls p ps x y r cs ds where g: "g = JArr (l # ls)" "l = JArr (p # ps)"
     "position p = Some (x, y)" "floats3 g = Some (((x # y # r) # cs) # ds)"
    using wf_polygon_floats3[of g] by auto
  have "\<exists>es. floats4 (JArr (g # gs)) = Some (the (floats3 (hd (g # gs))) # es)"
    using all by (intro unmarshalSlice_first) (auto simp: list_all_iff wf_polygon_floats3_ne)
  with j g show ?thesis by auto
qed

lemma coordinates_wellFormed:
  assumes "Coordinates g = Some j" and "wellFormedPayload (Type g) j"
  shows "\<exists>x y. representative (Type g) j = Some (x, y) \<and> coordinates g = Inr (Some (x, y))"
proof -
  consider (pt) "Type g = ''Point''" "is_position j"
    | (ln) "Type g = ''LineString''" "wf_line j"
    | (pg) "Type g = ''Polygon''" "wf_polygon j"
    | (mp) "Type g = ''MultiPolygon''" "wf_multipolygon j"
    using assms(2) by (auto simp: wellFormedPayload_def split: if_splits)
  then show ?thesis
  proof cases
    case pt
    then obtain x y where xy: "position j = Some (x, y)" by (auto simp: is_position_def)
    then obtain r where "floats1 j = Some (x # y # r)" using position_floats1 by blast
    with pt xy assms(1) show ?thesis
      by (simp add: coordinates_def representative_def Unmarshal_def)
  next
    case ln
    from wf_line_floats2[OF ln(2)] obtain p ps x y r cs where
      "j = JArr (p # ps)" "position p = Some (x, y)" "floats2 j = Some ((x # y # r) # cs)"
      by blast
    with ln assms(1) show ?thesis
      by (simp add: coordinates_def representative_def Unmarshal_def first_def)
  next
    case pg
    from wf_polygon_floats3[OF pg(2)] obtain l ls p ps x y r cs ds where
      "j = JArr (l # ls)" "l = JArr (p # ps)" "position p = Some (x, y)"
      "floats3 j = Some (((x # y # r) # cs) # ds)"
      by blast
    with pg assms(1) show ?thesis
      by (simp add: coordinates_def representative_def Unmarshal_def first_def)
  next
    case mp
    from wf_multipolygon_floats4[OF mp(2)] obtain g' gs l ls p ps x y r cs ds es where
      "j = JArr (g' # gs)" "g' = JArr (l # ls)" "l = JArr (p # ps)" "position p = Some (x, y)"
      "floats4 j = Some ((((x # y # r) # cs) # ds) # es)"
      by blast
    with mp assms(1) show ?thesis
      by (simp add: coordinates_def representative_def Unmarshal_def first_def)
  qed
qed

lemma guard0:
  "(if cs \<noteq> [] then bindP (index cs 0) k else d) = (case cs of [] \<Rightarrow> d | c # x \<Rightarrow> k c)"
  by (cases cs) simp_all

lemma guard2:
  "(if length c \<ge> 2 then pair01 c else d) =
     (case c of [] \<Rightarrow> d | x # r \<Rightarrow> (case r of [] \<Rightarrow> d | y # r' \<Rightarrow> Inr (Some (x, y))))"
  by (cases c; cases "tl c") simp_all

lemma coordinates_Point:
  "Type g = ''Point'' \<Longrightarrow> coordinates g =
     (case Unmarshal floats1 (Coordinates g) of
        None \<Rightarrow> Inr (Some (0, 0))
      | Some coords \<Rightarrow> if length coords \<ge> 2 then pair01 coords else Inr (Some (0, 0)))"
  by (simp add: coordinates_def)

lemma coordinates_LineString:
  "Type g = ''LineString'' \<Longrightarrow> coordinates g =
     (case Unmarshal floats2 (Coordinates g) of
        None \<Rightarrow> Inr (Some (0, 0))
      | Some coords \<Rightarrow>
          if length coords > 0 then
            bindP (index coords 0) (\<lambda>c0.
              if length c0 \<ge> 2 then pair01 c0 else Inr (Some (0, 0)))
          else Inr (Some (0, 0)))"
  by (simp add: coordinates_def)

lemma coordinates_Polygon:
  "Type g = ''Polygon'' \<Longrightarrow> coordinates g =
     (case Unmarshal floats3 (Coordinates g) of
        None \<Rightarrow> Inr (Some (0, 0))
      | Some coords \<Rightarrow>
          if length coords > 0 then
            bindP (index coords 0) (\<lambda>c0.
              if length c0 > 0 then
                bindP (index c0 0) (\<lambda>c00.
                  if length c00 \<ge> 2 then pair01 c00 else Inr (Some (0, 0)))
              else Inr (Some (0, 0)))
          else Inr (Some (0, 0)))"
  by (simp add: coordinates_def)

lemma coordinates_MultiPolygon:
  "Type g = ''MultiPolygon'' \<Longrightarrow> coordinates g =
     (case Unmarshal floats4 (Coordinates g) of
        None \<Rightarrow> Inr (Some (0, 0))
      | Some coords \<Rightarrow>
          if length coords > 0 then
            bindP (index coords 0) (\<lambda>c0.
              if length c0 > 0 then
                bindP (index c0 0) (\<lambda>c00.
                  if length c00 > 0 then
                    bindP (index c00 0) (\<lambda>c000.
                      if length c000 \<ge> 2 then pair01 c000 else Inr (Some (0, 0)))
                  else Inr (Some (0, 0)))
              else Inr (Some (0, 0)))
          else Inr (Some (0, 0)))"
  by (simp add: coordinates_def)

lemma coordinates_unknown: "\<not> knownGeometry (Type g) \<Longrightarrow> coordinates g = Inr None"
  by (simp add: knownGeometry_def coordinates_def)

lemma coordinates_total: "\<exists>r. coordinates g = Inr r"
proof (cases "knownGeometry (Type g)")
  case False
  then show ?thesis by (simp add: coordinates_unknown)
next
  case True
  then consider "Type g = ''Point''" | "Type g = ''LineString''" | "Type g = ''Polygon''"
    | "Type g = ''MultiPolygon''"
    by (auto simp: knownGeometry_def)
  then show ?thesis
  proof cases
    case 1 then show ?thesis
      by (simp add: coordinates_Point guard2 split: option.split list.split)
  next
    case 2 then show ?thesis
      by (simp add: coordinates_LineString guard0 guard2 split: option.split list.split)
  next
    case 3 then show ?thesis
      by (simp add: coordinates_Polygon guard0 guard2 split: option.split list.split)
  next
    case 4 then show ?thesis
      by (simp add: coordinates_MultiPolygon guard0 guard2 split: option.split list.split)
  qed
qed

lemma coordinates_noFirstPair:
  assumes "knownGeometry (Type g)" and "noFirstPair g"
  shows "coordinates g = Inr (Some (0, 0))"
proof -
  consider "Type g = ''Point''" | "Type g = ''LineString''" | "Type g = ''Polygon''"
    | "Type g = ''MultiPolygon''"
    using assms(1) by (auto simp: knownGeometry_def)
  then show ?thesis
  proof cases
    case 1 with assms(2) show ?thesis
      by (simp add: coordinates_Point noFirstPair_def split: option.splits)
  next
    case 2 with assms(2) show ?thesis
      by (simp add: coordinates_LineString noFirstPair_def guard0 split: option.splits list.splits)
  next
    case 3 with assms(2) show ?thesis
      by (simp add: coordinates_Polygon noFirstPair_def guard0 split: option.splits list.splits)
  next
    case 4 with assms(2) show ?thesis
      by (simp add: coordinates_MultiPolygon noFirstPair_def guard0
          split: option.splits list.splits)
  qed
qed

lemma extract_zero:
  "coordinates (Geometry f) = Inr (Some (0, 0)) \<Longrightarrow> extractAddressData ff f = Inr None"
  by (simp add: extractAddressData_def Let_def split: prod.splits)

lemma extract_unknown:
  "coordinates (Geometry f) = Inr None \<Longrightarrow> extractAddressData ff f = Inr None"
  by (simp add: extractAddressData_def Let_def split: prod.splits)

lemma extract_no_street:
  "Properties f ''addr:street'' = None \<Longrightarrow> extractAddressData ff f = Inr None"
  by (simp add: extractAddressData_def Let_def lookup_def split: prod.splits)

lemma extract_record:
  assumes "Properties f ''addr:street'' = Some s"
    and "coordinates (Geometry f) = Inr (Some (x, y))"
  shows "extractAddressData ff f =
    Inr (if x = 0 \<and> y = 0 then None
         else Some \<lparr>Street = sprintf_v ff s,
                HouseNumber = sprintf_v ff (fst (lookup (Properties f) ''addr:housenumber'')),
                City = sprintf_v ff (cityOf (Properties f)),
                Lon = x, Lat = y\<rparr>)"
  using assms
  by (simp add: extractAddressData_def Let_def lookup_def cityOf_def split: prod.splits option.splits)

lemma extract_never_panics: "\<exists>r. extractAddressData ff f = Inr r"
proof -
  obtain r where r: "coordinates (Geometry f) = Inr r"
    using coordinates_total by blast
  show ?thesis
    by (cases r) (auto simp: extractAddressData_def Let_def r split: prod.splits)
qed

text \<open>
  Whatever the feature: when the street is there and the house number is not, the
  record, if there is one, has the house number \<^verbatim>\<open><nil>\<close>.
\<close>

lemma house_number_absent:
  assumes "Properties f ''addr:street'' = Some s"
    and "Properties f ''addr:housenumber'' = None"
    and "extractAddressData ff f = Inr (Some a)"
  shows "HouseNumber a = ''<nil>''"
proof -
  obtain r where r: "coordinates (Geometry f) = Inr r"
    using coordinates_total by blast
  with assms(3) obtain x y where "r = Some (x, y)"
    by (cases r) (auto simp: extract_unknown)
  with r assms show ?thesis
    by (auto simp: extract_record lookup_def split: if_splits)
qed

text \<open>
  Claim C2. A feature with a street and no house-number property is to yield a record
  whose house number is the empty string. The code formats the missing value, a nil
  interface, with \<^verbatim>\<open>%v\<close>: for the feature below (street and city, a point at
  (13, 52), no \<^verbatim>\<open>addr:housenumber\<close>) the record's house number is the five
  characters \<^verbatim>\<open><nil>\<close>, whatever the number formatting \<open>ff\<close>.
\<close>

theorem house_number_absent_prints_nil:
  "extractAddressData ff fixtureNoHouseNumber =
     Inr (Some \<lparr>Street = ''Hauptstrasse'', HouseNumber = ''<nil>'', City = ''Berlin'',
                 Lon = 13, Lat = 52\<rparr>)"
  by (simp add: fixtureNoHouseNumber_def extractAddressData_def coordinates_def
      Unmarshal_def lookup_def)

text \<open>
  Claim C5. For a feature with a street and a well-formed payload the pair
  \<open>(lon, lat)\<close> the switch extracts is the representative vertex of the geometry type
  (the point; the first vertex of a line; the first vertex of the outer ring of a
  polygon; that of the first polygon of a multi-polygon), and it is the coordinate of
  the record returned (no record is returned for the pair (0, 0), claim C6). A feature
  of any other geometry type is excluded.
\<close>

theorem representative_vertex:
  "(Properties f ''addr:street'' = Some s \<and> Coordinates (Geometry f) = Some j \<and>
    wellFormedPayload (Type (Geometry f)) j \<longrightarrow>
      (\<exists>x y. representative (Type (Geometry f)) j = Some (x, y) \<and>
             coordinates (Geometry f) = Inr (Some (x, y)) \<and>
             (if x = 0 \<and> y = 0 then extractAddressData ff f = Inr None
              else \<exists>r. extractAddressData ff f = Inr (Some r) \<and> Lon r = x \<and> Lat r = y))) \<and>
   (\<not> knownGeometry (Type (Geometry f)) \<longrightarrow> extractAddressData ff f = Inr None)"
proof (intro conjI impI)
  assume a: "Properties f ''addr:street'' = Some s \<and> Coordinates (Geometry f) = Some j \<and>
    wellFormedPayload (Type (Geometry f)) j"
  then obtain x y where xy: "representative (Type (Geometry f)) j = Some (x, y)"
    "coordinates (Geometry f) = Inr (Some (x, y))"
    using coordinates_wellFormed by blast
  from a xy(2) have "extractAddressData ff f =
    Inr (if x = 0 \<and> y = 0 then None
         else Some \<lparr>Street = sprintf_v ff s,
                HouseNumber = sprintf_v ff (fst (lookup (Properties f) ''addr:housenumber'')),
                City = sprintf_v ff (cityOf (Properties f)),
                Lon = x, Lat = y\<rparr>)"
    by (simp add: extract_record)
  then have "if x = 0 \<and> y = 0 then extractAddressData ff f = Inr None
     else \<exists>r. extractAddressData ff f = Inr (Some r) \<and> Lon r = x \<and> Lat r = y"
    by (cases "x = 0 \<and> y = 0") simp_all
  with xy show "\<exists>x y. representative (Type (Geometry f)) j = Some (x, y) \<and>
             coordinates (Geometry f) = Inr (Some (x, y)) \<and>
             (if x = 0 \<and> y = 0 then extractAddressData ff f = Inr None
              else \<exists>r. extractAddressData ff f = Inr (Some r) \<and> Lon r = x \<and> Lat r = y)"
    by blast
next
  assume "\<not> knownGeometry (Type (Geometry f))"
  then show "extractAddressData ff f = Inr None"
    by (simp add: coordinates_unknown extract_unknown)
qed

text \<open>
  The specification's example: the polygon with outer ring [[2,3],[4,5],[2,3]] yields
  the coordinate (2, 3).
\<close>

theorem representative_vertex_polygon:
  "representative ''Polygon''
      (JArr [JArr [JArr [JNum 2, JNum 3], JArr [JNum 4, JNum 5], JArr [JNum 2, JNum 3]]])
     = Some (2, 3) \<and>
   coordinates (Geometry fixturePolygon) = Inr (Some (2, 3)) \<and>
   (\<exists>r. extractAddressData (\<lambda>x. []) fixturePolygon = Inr (Some r) \<and> Lon r = 2 \<and> Lat r = 3)"
  using representative_vertex [of fixturePolygon "AString ''Ring''"
      "JArr [JArr [JArr [JNum 2, JNum 3], JArr [JNum 4, JNum 5], JArr [JNum 2, JNum 3]]]"
      "\<lambda>x. []"]
  by (simp add: fixturePolygon_def wellFormedPayload_def wf_polygon_def wf_line_def
      is_position_def representative_def first_def)

text \<open>
  Claim C6. A feature whose coordinate after the switch is exactly (0, 0) is excluded,
  whatever its properties; in particular one whose well-formed payload has the
  representative vertex (0, 0).
\<close>

theorem zero_coordinate_excluded:
  "(coordinates (Geometry f) = Inr (Some (0, 0)) \<longrightarrow> extractAddressData ff f = Inr None) \<and>
   (Coordinates (Geometry f) = Some j \<and> wellFormedPayload (Type (Geometry f)) j \<and>
    representative (Type (Geometry f)) j = Some (0, 0) \<longrightarrow> extractAddressData ff f = Inr None)"
proof (intro conjI impI)
  assume "coordinates (Geometry f) = Inr (Some (0, 0))"
  then show "extractAddressData ff f = Inr None" by (rule extract_zero)
next
  assume a: "Coordinates (Geometry f) = Some j \<and> wellFormedPayload (Type (Geometry f)) j \<and>
    representative (Type (Geometry f)) j = Some (0, 0)"
  then have "coordinates (Geometry f) = Inr (Some (0, 0))"
    using coordinates_wellFormed [of "Geometry f" j] by auto
  then show "extractAddressData ff f = Inr None" by (rule extract_zero)
qed

text \<open>A point at (0, 0) with street, house number and city is excluded.\<close>

theorem zero_coordinate_excluded_origin:
  "coordinates (Geometry fixtureOrigin) = Inr (Some (0, 0)) \<and>
   representative ''Point'' (JArr [JNum 0, JNum 0]) = Some (0, 0) \<and>
   extractAddressData (\<lambda>x. []) fixtureOrigin = Inr None"
  using zero_coordinate_excluded [of fixtureOrigin "\<lambda>x. []" "JArr [JNum 0, JNum 0]"]
  by (simp add: fixtureOrigin_def coordinates_def Unmarshal_def representative_def)

text \<open>
  Claim C10. \<open>extractAddressData\<close> never panics: every index expression is reached
  only under its length check. For a known geometry type, a payload that fails to
  parse, is empty, or lacks a complete first coordinate pair leaves the coordinate at
  (0, 0), and the feature is excluded.
\<close>

theorem extract_total:
  "(\<exists>r. extractAddressData ff f = Inr r) \<and>
   (knownGeometry (Type (Geometry f)) \<and> noFirstPair (Geometry f) \<longrightarrow>
      coordinates (Geometry f) = Inr (Some (0, 0)) \<and> extractAddressData ff f = Inr None)"
proof
  show "\<exists>r. extractAddressData ff f = Inr r"
    by (rule extract_never_panics)
  show "knownGeometry (Type (Geometry f)) \<and> noFirstPair (Geometry f) \<longrightarrow>
      coordinates (Geometry f) = Inr (Some (0, 0)) \<and> extractAddressData ff f = Inr None"
    using coordinates_noFirstPair extract_zero by blast
qed

text \<open>A line whose first vertex has one ordinate only.\<close>

theorem extract_total_short_line:
  "knownGeometry ''LineString'' \<and> noFirstPair (Geometry fixtureShortLine) \<and>
   coordinates (Geometry fixtureShortLine) = Inr (Some (0, 0)) \<and>
   extractAddressData (\<lambda>x. []) fixtureShortLine = Inr None"
  using extract_total [of "\<lambda>x. []" fixtureShortLine]
  by (simp add: fixtureShortLine_def knownGeometry_def noFirstPair_def Unmarshal_def)

section \<open>Properties of the store and the loader\<close>

lemma take_drop_chunk: "take n (drop i xs) @ drop (i + n) xs = drop i xs"
  using append_take_drop_id [of n "drop i xs"] by (simp add: add.commute)

lemma bulkInsertFrom_eq:
  "bulkInsertFrom i t rs =
     Inr \<lparr>work = foldl insert_or_ignore (work t) (drop i rs), written = written t @ drop i rs\<rparr>"
proof (induction i t rs rule: bulkInsertFrom.induct)
  case (1 i t records)
  show ?case
  proof (cases "i < length records")
    case False
    then show ?thesis by (subst bulkInsertFrom.simps) simp
  next
    case True
    define e where "e = (if i + maxRecordsPerBatch > length records then length records
                  else i + maxRecordsPerBatch)"
    define cur where "cur = take (e - i) (drop i records)"
    define t' where "t' = \<lparr>work = foldl insert_or_ignore (work t) cur, written = written t @ cur\<rparr>"
    have ex: "Exec_insert t cur = Inr t'"
      by (simp add: Exec_insert_def t'_def)
    have split: "cur @ drop (i + maxRecordsPerBatch) records = drop i records"
    proof (cases "i + maxRecordsPerBatch > length records")
      case True
      then show ?thesis using \<open>i < length records\<close> by (simp add: cur_def e_def)
    next
      case False
      then have "e - i = maxRecordsPerBatch" by (simp add: e_def)
      then show ?thesis by (simp only: cur_def take_drop_chunk)
    qed
    have ih: "bulkInsertFrom (i + maxRecordsPerBatch) t' records =
      Inr \<lparr>work = foldl insert_or_ignore (work t') (drop (i + maxRecordsPerBatch) records),
           written = written t' @ drop (i + maxRecordsPerBatch) records\<rparr>"
      using "1.IH" [OF True e_def cur_def ex] .
    have "bulkInsertFrom i t records = bulkInsertFrom (i + maxRecordsPerBatch) t' records"
      using True ex by (subst bulkInsertFrom.simps) (simp add: e_def cur_def Let_def)
    also have "\<dots> = Inr \<lparr>work = foldl insert_or_ignore (work t) (cur @ drop (i + maxRecordsPerBatch) records),
           written = written t @ (cur @ drop (i + maxRecordsPerBatch) records)\<rparr>"
      using ih by (simp add: t'_def)
    finally show ?thesis by (simp only: split)
  qed
qed

lemma bulkInsert_eq:
  "bulkInsert t rs =
     Inr \<lparr>work = foldl insert_or_ignore (work t) rs, written = written t @ rs\<rparr>"
  by (cases rs) (simp_all add: bulkInsert_def bulkInsertFrom_eq)

lemma flush_eq:
  "flush clk s =
     Inr (s\<lparr>db := (db s)\<lparr>committed := foldl insert_or_ignore (work (tx s)) (batch s),
                         commits := commits (db s) @ [written (tx s) @ batch s]\<rparr>,
            tx := \<lparr>work = foldl insert_or_ignore (work (tx s)) (batch s), written = []\<rparr>,
            batch := [],
            batchStartTime := clk (ticks s + 1),
            lastReportTime :=
              (if clk (ticks s) - lastReportTime s > 0 then clk (ticks s)
               else lastReportTime s),
            ticks := ticks s + 2\<rparr>)"
  by (simp add: flush_def bulkInsert_eq Commit_def Begin_def Let_def)

lemma flush_inv:
  assumes "work (tx s) = committed (db s)" and "written (tx s) = []"
    and "length (batch s) \<le> batchSize"
    and "list_all (\<lambda>b. length b \<le> batchSize) (commits (db s))"
    and "concat (commits (db s)) @ batch s = recs"
    and "committed (db s) = foldl insert_or_ignore emptyTables (concat (commits (db s)))"
  shows "\<exists>s'. flush clk s = Inr s' \<and> loaderInv s' recs"
proof -
  have "foldl insert_or_ignore (committed (db s)) (batch s) =
      foldl insert_or_ignore emptyTables recs"
    unfolding assms(6) assms(5) [symmetric] by simp
  with assms show ?thesis by (simp add: flush_eq loaderInv_def batchSize_def)
qed

lemma loopBody_inv:
  assumes "loaderInv s recs"
  shows "\<exists>s'. loopBody ff clk s d = Inr s' \<and> loaderInv s' (recs @ extracted ff [d])"
proof (cases d)
  case None
  with assms show ?thesis by (simp add: loopBody_def)
next
  case (Some f)
  obtain r where r: "extractAddressData ff f = Inr r"
    using extract_never_panics by blast
  show ?thesis
  proof (cases r)
    case None
    with assms Some r show ?thesis by (simp add: loopBody_def)
  next
    case (Some a)
    define s1 where "s1 = s\<lparr>batch := batch s @ [a], totalCount := totalCount s + 1\<rparr>"
    define s2 where "s2 = s1\<lparr>ticks := ticks s1 + 1\<rparr>"
    have body: "loopBody ff clk s d =
      (if length (batch s1) \<ge> batchSize then flush clk s1
       else if clk (ticks s1) - batchStartTime s1 \<ge> maxBatchDuration then flush clk s2
       else Inr s2)"
      using \<open>d = Some f\<close> r Some by (simp add: loopBody_def Let_def s1_def s2_def)
    have ex: "extracted ff [d] = [a]"
      using \<open>d = Some f\<close> r Some by simp
    from assms have pre1:
      "work (tx s1) = committed (db s1)" "written (tx s1) = []"
      "length (batch s1) \<le> batchSize"
      "list_all (\<lambda>b. length b \<le> batchSize) (commits (db s1))"
      "concat (commits (db s1)) @ batch s1 = recs @ [a]"
      "committed (db s1) = foldl insert_or_ignore emptyTables (concat (commits (db s1)))"
      by (auto simp: loaderInv_def s1_def)
    then have pre2:
      "work (tx s2) = committed (db s2)" "written (tx s2) = []"
      "length (batch s2) \<le> batchSize"
      "list_all (\<lambda>b. length b \<le> batchSize) (commits (db s2))"
      "concat (commits (db s2)) @ batch s2 = recs @ [a]"
      "committed (db s2) = foldl insert_or_ignore emptyTables (concat (commits (db s2)))"
      by (simp_all add: s2_def)
    consider (size) "length (batch s1) \<ge> batchSize"
      | (time) "\<not> length (batch s1) \<ge> batchSize"
          "clk (ticks s1) - batchStartTime s1 \<ge> maxBatchDuration"
      | (none) "\<not> length (batch s1) \<ge> batchSize"
          "\<not> clk (ticks s1) - batchStartTime s1 \<ge> maxBatchDuration"
      by blast
    then show ?thesis
    proof cases
      case size
      then show ?thesis using flush_inv [OF pre1, of clk] by (simp add: body ex)
    next
      case time
      then show ?thesis using flush_inv [OF pre2, of clk] by (simp add: body ex)
    next
      case none
      moreover have "loaderInv s2 (recs @ [a])"
        using pre2 none(1) by (simp add: loaderInv_def s2_def)
      ultimately show ?thesis by (simp add: body ex)
    qed
  qed
qed

lemma extracted_append: "extracted ff (xs @ ys) = extracted ff xs @ extracted ff ys"
  by (induction ff xs rule: extracted.induct) (auto split: sum.splits option.splits)

lemma featuresLoop_inv:
  "loaderInv s recs \<Longrightarrow>
     \<exists>s'. featuresLoop ff clk s items = Inr s' \<and> loaderInv s' (recs @ extracted ff items)"
proof (induction items arbitrary: s recs)
  case Nil
  then show ?case by simp
next
  case (Cons d items)
  from loopBody_inv [OF Cons.prems, of ff clk d] obtain s1 where
    s1: "loopBody ff clk s d = Inr s1" "loaderInv s1 (recs @ extracted ff [d])"
    by blast
  from Cons.IH [OF s1(2)] obtain s' where
    "featuresLoop ff clk s1 items = Inr s'"
    "loaderInv s' ((recs @ extracted ff [d]) @ extracted ff items)"
    by blast
  moreover have "extracted ff (d # items) = extracted ff [d] @ extracted ff items"
    using extracted_append [of ff "[d]" items] by simp
  ultimately show ?case using s1(1) by simp
qed

lemma finalFlush_inv:
  assumes "loaderInv s recs"
  shows "\<exists>s'. finalFlush s = Inr s' \<and>
           committed (db s') = foldl insert_or_ignore emptyTables recs \<and>
           concat (commits (db s')) = recs \<and>
           list_all (\<lambda>b. length b \<le> batchSize) (commits (db s'))"
proof -
  from assms have c: "concat (commits (db s)) @ batch s = recs"
    and k: "committed (db s) = foldl insert_or_ignore emptyTables (concat (commits (db s)))"
    by (simp_all add: loaderInv_def)
  have f: "foldl insert_or_ignore (committed (db s)) (batch s) =
      foldl insert_or_ignore emptyTables recs"
    unfolding k c [symmetric] by simp
  show ?thesis
  proof (cases "batch s = []")
    case True
    with assms f show ?thesis by (simp add: finalFlush_def loaderInv_def)
  next
    case False
    with assms f show ?thesis
      by (simp add: finalFlush_def loaderInv_def bulkInsert_eq Commit_def)
  qed
qed

lemma initialLoader_inv:
  "\<exists>s0. initialLoader clk = Inr s0 \<and> loaderInv s0 []"
  by (simp add: initialLoader_def Begin_def emptyDatabase_def loaderInv_def emptyTables_def
      batchSize_def)

lemma loadFeatures_inv:
  assumes "loaderInv s recs"
  shows "\<exists>s'. loadFeatures ff clk s items = Inr s' \<and>
           committed (db s') = foldl insert_or_ignore emptyTables (recs @ extracted ff items) \<and>
           concat (commits (db s')) = recs @ extracted ff items \<and>
           list_all (\<lambda>b. length b \<le> batchSize) (commits (db s'))"
proof -
  from featuresLoop_inv [OF assms, of ff clk items] obtain s1 where
    s1: "featuresLoop ff clk s items = Inr s1" "loaderInv s1 (recs @ extracted ff items)"
    by blast
  from finalFlush_inv [OF s1(2)] s1(1) show ?thesis
    by (simp add: loadFeatures_def)
qed








lemma loopBody_trigger:
  assumes "extractAddressData ff f = Inr (Some a)"
  shows "\<exists>s'. loopBody ff clk s (Some f) = Inr s' \<and>
     (if batchSize \<le> length (batch s) + 1 \<or> maxBatchDuration \<le> clk (ticks s) - batchStartTime s
      then batch s' = [] \<and> commits (db s') = commits (db s) @ [written (tx s) @ batch s @ [a]]
      else batch s' = batch s @ [a] \<and> commits (db s') = commits (db s))"
  using assms by (simp add: loopBody_def Let_def flush_eq)

lemma extract_pointFeature:
  "extractAddressData ff (pointFeature s h c x y) =
     Inr (if x = 0 \<and> y = 0 then None
          else Some \<lparr>Street = s, HouseNumber = h, City = c, Lon = x, Lat = y\<rparr>)"
  by (simp add: pointFeature_def extractAddressData_def coordinates_def Unmarshal_def lookup_def
      Let_def)

lemma extract_fixtures:
  "extractAddressData ff fixtureA = Inr (Some (recordOf ''Hauptstrasse'' ''1'' ''Berlin'' 13 52))"
  "extractAddressData ff fixtureA2 = Inr (Some (recordOf ''Hauptstrasse'' ''1'' ''Berlin'' 14 53))"
  "extractAddressData ff fixtureB = Inr (Some (recordOf ''Hauptstrasse'' ''2'' ''Berlin'' 13 53))"
  by (simp_all add: fixtureA_def fixtureA2_def fixtureB_def extract_pointFeature recordOf_def)

lemma fixture_run:
  "\<exists>s0 s. initialLoader slowClock = Inr s0 \<and>
     loadFeatures (\<lambda>x. []) slowClock s0 fixtureItems = Inr s \<and>
     commits (db s) =
       [[recordOf ''Hauptstrasse'' ''1'' ''Berlin'' 13 52,
         recordOf ''Hauptstrasse'' ''1'' ''Berlin'' 14 53],
        [recordOf ''Hauptstrasse'' ''2'' ''Berlin'' 13 53]] \<and>
     addresses (committed (db s)) =
       [\<lparr>rowid = 1, street = ''Hauptstrasse'', house_number = ''1'', city = ''Berlin'',
          longitude = 13, latitude = 52\<rparr>,
        \<lparr>rowid = 3, street = ''Hauptstrasse'', house_number = ''2'', city = ''Berlin'',
          longitude = 13, latitude = 53\<rparr>]"
  by (simp add: initialLoader_def Begin_def emptyDatabase_def loadFeatures_def fixtureItems_def
      loopBody_def extract_fixtures flush_eq finalFlush_def bulkInsert_eq Commit_def
      slowClock_def batchSize_def maxBatchDuration_def Let_def recordOf_def
      insert_or_ignore_def natural_key_def record_key_def)

section \<open>Properties of the decoder loop\<close>

lemma members_Cons:
  "members ((k, v) # post) =
     Val (JStr k) # Colon # Val v # (if post = [] then [] else Comma # members post)"
  by (cases post) auto

lemma elems_Cons:
  "elems (v # vs) = Val v # (if vs = [] then [] else Comma # elems vs)"
  by (cases vs) auto

lemma forFeatures_rest:
  "forFeatures unm ff clk (Suc (length vs) + k)
      \<lparr>buf = (if vs = [] then [] else Comma # elems vs) @ EndArr # r,
       tokenState = tokenArrayComma, tokenStack = stk\<rparr> s =
     (case featuresLoop ff clk s (map unm vs) of
        Inl err \<Rightarrow> Some (Inl err)
      | Inr s' \<Rightarrow>
          Some (Inr (\<lparr>buf = EndArr # r, tokenState = tokenArrayComma, tokenStack = stk\<rparr>, s')))"
proof (induction vs arbitrary: s)
  case Nil
  then show ?case by (simp add: More_def)
next
  case (Cons v vs)
  have dec: "Decode unm \<lparr>buf = Comma # elems (v # vs) @ EndArr # r,
       tokenState = tokenArrayComma, tokenStack = stk\<rparr> =
     ((case unm v of None \<Rightarrow> Inl UnmarshalTypeError | Some x \<Rightarrow> Inr x),
      \<lparr>buf = (if vs = [] then [] else Comma # elems vs) @ EndArr # r,
       tokenState = tokenArrayComma, tokenStack = stk\<rparr>)"
    by (simp add: Decode_def tokenPrepareForDecode_def tokenValueAllowed_def tokenValueEnd_def
        elems_Cons)
  have opt: "(case (case unm v of None \<Rightarrow> Inl UnmarshalTypeError | Some x \<Rightarrow> Inr x) of
        Inl err \<Rightarrow> None | Inr feature \<Rightarrow> Some feature) = unm v"
    by (cases "unm v") simp_all
  show ?case
  proof (cases "loopBody ff clk s (unm v)")
    case (Inl e)
    then show ?thesis by (simp add: More_def dec opt)
  next
    case (Inr s1)
    then show ?thesis using Cons.IH [of s1] by (simp add: More_def dec opt)
  qed
qed

lemma forFeatures_elems:
  "forFeatures unm ff clk (Suc (length vs) + k)
      \<lparr>buf = elems vs @ EndArr # r, tokenState = tokenArrayStart, tokenStack = stk\<rparr> s =
     (case featuresLoop ff clk s (map unm vs) of
        Inl err \<Rightarrow> Some (Inl err)
      | Inr s' \<Rightarrow>
          Some (Inr (\<lparr>buf = EndArr # r,
                      tokenState = (if vs = [] then tokenArrayStart else tokenArrayComma),
                      tokenStack = stk\<rparr>, s')))"
proof (cases vs)
  case Nil
  then show ?thesis by (simp add: More_def)
next
  case (Cons v vs')
  have dec: "Decode unm \<lparr>buf = elems (v # vs') @ EndArr # r,
       tokenState = tokenArrayStart, tokenStack = stk\<rparr> =
     ((case unm v of None \<Rightarrow> Inl UnmarshalTypeError | Some x \<Rightarrow> Inr x),
      \<lparr>buf = (if vs' = [] then [] else Comma # elems vs') @ EndArr # r,
       tokenState = tokenArrayComma, tokenStack = stk\<rparr>)"
    by (simp add: Decode_def tokenPrepareForDecode_def tokenValueAllowed_def tokenValueEnd_def
        elems_Cons)
  have opt: "(case (case unm v of None \<Rightarrow> Inl UnmarshalTypeError | Some x \<Rightarrow> Inr x) of
        Inl err \<Rightarrow> None | Inr feature \<Rightarrow> Some feature) = unm v"
    by (cases "unm v") simp_all
  have more: "More \<lparr>buf = elems (v # vs') @ EndArr # r,
       tokenState = tokenArrayStart, tokenStack = stk\<rparr>"
    by (simp add: More_def elems_Cons)
  show ?thesis
  proof (cases "loopBody ff clk s (unm v)")
    case (Inl e)
    then show ?thesis using more by (simp add: Cons dec opt del: elems.simps)
  next
    case (Inr s1)
    then show ?thesis
      using more forFeatures_rest [of unm ff clk vs' k r stk s1]
      by (simp add: Cons dec opt del: elems.simps)
  qed
qed

lemma not_More_EndArr: "\<not> More \<lparr>buf = EndArr # r, tokenState = st, tokenStack = stk\<rparr>"
  by (simp add: More_def)

text \<open>
  The document as the export writes it, a member \<^verbatim>\<open>type\<close> with a string value other
  than \<^verbatim>\<open>"features"\<close>, then \<^verbatim>\<open>features\<close>, then any further members: with enough fuel
  the run ends, the elements of the array are the features decoded, in order, and what
  follows the array is not read.
\<close>

lemma processGeoJSON_collection:
  assumes "t \<noteq> ''features''"
  shows "processGeoJSON unm ff clk (Suc (Suc (Suc (Suc (length vs + k)))))
      (JObj ((''type'', JStr t) # (''features'', JArr vs) # post)) =
     (case initialLoader clk of
        Inl err \<Rightarrow> Some (Inl err)
      | Inr s0 \<Rightarrow>
          (case loadFeatures ff clk s0 (map unm vs) of
             Inl err \<Rightarrow> Some (Inl err)
           | Inr s \<Rightarrow> Some (buildIndex (db s))))"
proof -
  obtain s0 where s0: "initialLoader clk = Inr s0"
    by (simp add: initialLoader_def Begin_def)
  let ?rest = "(if post = [] then [] else Comma # members post) @ [EndObj]"
  have feat: "forFeatures unm ff clk (Suc (length vs) + k)
      \<lparr>buf = elems vs @ EndArr # ?rest, tokenState = tokenArrayStart,
       tokenStack = [tokenObjectValue, tokenTopValue]\<rparr> s0 =
     (case featuresLoop ff clk s0 (map unm vs) of
        Inl err \<Rightarrow> Some (Inl err)
      | Inr s' \<Rightarrow>
          Some (Inr (\<lparr>buf = EndArr # ?rest,
                      tokenState = (if vs = [] then tokenArrayStart else tokenArrayComma),
                      tokenStack = [tokenObjectValue, tokenTopValue]\<rparr>, s')))"
    by (rule forFeatures_elems)
  show ?thesis
  proof (cases "featuresLoop ff clk s0 (map unm vs)")
    case (Inl e)
    with assms s0 feat show ?thesis
      by (simp add: processGeoJSON_def Token_def NewDecoder_def tokenValueAllowed_def
          tokenValueEnd_def scalarToken_def More_def members_Cons loadFeatures_def
          del: members.simps)
  next
    case (Inr s1)
    show ?thesis
    proof (cases "finalFlush s1")
      case (Inl e)
      with assms s0 feat Inr show ?thesis
        by (simp add: processGeoJSON_def Token_def NewDecoder_def tokenValueAllowed_def
            tokenValueEnd_def scalarToken_def More_def members_Cons loadFeatures_def
            del: members.simps)
    next
      case (Inr s2)
      with assms s0 feat \<open>featuresLoop ff clk s0 (map unm vs) = Inr s1\<close> show ?thesis
        by (simp add: processGeoJSON_def Token_def NewDecoder_def tokenValueAllowed_def
            tokenValueEnd_def scalarToken_def More_def members_Cons loadFeatures_def
            del: members.simps)
    qed
  qed
qed




text \<open>
  Every run of the loops that ends, on any document: the loop over the features ends
  where \<^verbatim>\<open>More\<close> is false, so the loop over the tokens ends with it, and the store
  holds the import of the features decoded.
\<close>

lemma forFeatures_result:
  "loaderInv s recs \<Longrightarrow> forFeatures unm ff clk n d s = Some r \<Longrightarrow>
     \<exists>d' s' items. r = Inr (d', s') \<and> \<not> More d' \<and>
        featuresLoop ff clk s items = Inr s' \<and> loaderInv s' (recs @ extracted ff items)"
proof (induction n arbitrary: d s recs)
  case 0
  then show ?case by simp
next
  case (Suc n)
  show ?case
  proof (cases "More d")
    case False
    with Suc.prems have "r = Inr (d, s)" by simp
    moreover have "featuresLoop ff clk s [] = Inr s" by simp
    ultimately show ?thesis using False Suc.prems(1) by fastforce
  next
    case True
    obtain x d1 where dec: "Decode unm d = (x, d1)" by (cases "Decode unm d")
    define item where "item = (case x of Inl err \<Rightarrow> None | Inr feature \<Rightarrow> Some feature)"
    from loopBody_inv [OF Suc.prems(1), of ff clk item] obtain s1 where
      s1: "loopBody ff clk s item = Inr s1" "loaderInv s1 (recs @ extracted ff [item])"
      by blast
    from Suc.prems(2) True dec s1(1) have "forFeatures unm ff clk n d1 s1 = Some r"
      by (simp add: item_def)
    from Suc.IH [OF s1(2) this] obtain d' s' items where
      r: "r = Inr (d', s')" "\<not> More d'" "featuresLoop ff clk s1 items = Inr s'"
         "loaderInv s' ((recs @ extracted ff [item]) @ extracted ff items)"
      by blast
    have "featuresLoop ff clk s (item # items) = Inr s'"
      using s1(1) r(3) by simp
    moreover have "extracted ff (item # items) = extracted ff [item] @ extracted ff items"
      using extracted_append [of ff "[item]" items] by simp
    ultimately show ?thesis using r by (metis append.assoc)
  qed
qed

lemma forTokens_result:
  "loaderInv s [] \<Longrightarrow> db s = emptyDatabase \<Longrightarrow> forTokens unm ff clk n d s = Some r \<Longrightarrow>
     (\<exists>e. r = Inl e) \<or> (\<exists>d' s' items. r = Inr (d', s') \<and> importedBy ff (db s') items)"
proof (induction n arbitrary: d)
  case 0
  then show ?case by simp
next
  case (Suc n)
  show ?case
  proof (cases "More d")
    case False
    with Suc.prems have "r = Inr (d, s)" by simp
    moreover have "importedBy ff (db s) []"
      using Suc.prems(2) by (simp add: importedBy_def emptyDatabase_def emptyTables_def)
    ultimately show ?thesis by blast
  next
    case True
    show ?thesis
    proof (cases "Token d")
      case (Inl e)
      with True Suc.prems(3) show ?thesis by auto
    next
      case (Inr td)
      obtain t d1 where td: "td = (t, d1)" by (cases td)
      show ?thesis
      proof (cases "t = TString ''features''")
        case False
        with True Inr td Suc.prems(3) have "forTokens unm ff clk n d1 s = Some r" by simp
        from Suc.IH [OF Suc.prems(1,2) this] show ?thesis .
      next
        case feat: True
        show ?thesis
        proof (cases "Token d1")
          case (Inl e)
          with True Inr td feat Suc.prems(3) show ?thesis by auto
        next
          case inner: (Inr td2)
          obtain t2 d2 where td2: "td2 = (t2, d2)" by (cases td2)
          show ?thesis
          proof (cases "forFeatures unm ff clk n d2 s")
            case None
            with True Inr td feat inner td2 Suc.prems(3) show ?thesis by auto
          next
            case (Some r1)
            from forFeatures_result [OF Suc.prems(1) Some] obtain d3 s1 items where
              r1: "r1 = Inr (d3, s1)" "\<not> More d3" "loaderInv s1 ([] @ extracted ff items)"
              by blast
            from finalFlush_inv [OF r1(3)] obtain s2 where
              s2: "finalFlush s1 = Inr s2"
                  "committed (db s2) = foldl insert_or_ignore emptyTables (extracted ff items)"
                  "concat (commits (db s2)) = extracted ff items"
                  "list_all (\<lambda>b. length b \<le> batchSize) (commits (db s2))"
              by auto
            from True Inr td feat inner td2 Some r1(1) s2(1) Suc.prems(3)
            have rest: "forTokens unm ff clk n d3 s2 = Some r" by simp
            then have "r = Inr (d3, s2)" using r1(2) by (cases n) simp_all
            moreover have "importedBy ff (db s2) items"
              using s2 by (simp add: importedBy_def)
            ultimately show ?thesis by blast
          qed
        qed
      qed
    qed
  qed
qed

lemma initialLoader_empty:
  "initialLoader clk = Inr s0 \<Longrightarrow> db s0 = emptyDatabase \<and> loaderInv s0 []"
  using initialLoader_inv [of clk] by (auto simp: initialLoader_def Begin_def)

lemma buildIndex_tables:
  "\<exists>d'. buildIndex d = Inr d' \<and> committed d' = committed d \<and> commits d' = commits d"
  by (simp add: buildIndex_def)

lemma processGeoJSON_result:
  assumes "processGeoJSON unm ff clk fuel doc = Some (Inr d)"
  shows "\<exists>items. importedBy ff d items"
proof -
  from assms obtain t d1 s0 where
    tok: "Token (NewDecoder doc) = Inr (t, d1)" and s0: "initialLoader clk = Inr s0"
    by (auto simp: processGeoJSON_def split: sum.splits prod.splits)
  from assms tok s0 obtain d' s' where
    run: "forTokens unm ff clk fuel d1 s0 = Some (Inr (d', s'))" and b: "buildIndex (db s') = Inr d"
    by (auto simp: processGeoJSON_def split: option.splits sum.splits prod.splits)
  from initialLoader_empty [OF s0] forTokens_result [of s0 unm ff clk fuel d1 "Inr (d', s')"] run
  obtain items where "importedBy ff (db s') items" by auto
  moreover from b have "committed d = committed (db s')" "commits d = commits (db s')"
    by (auto simp: buildIndex_def)
  ultimately show ?thesis by (auto simp: importedBy_def)
qed


section \<open>The import: claims C7, C8 and C4\<close>

lemma unmarshalFeature_jsonPoint:
  "unmarshalFeature (jsonPoint s h c x y) = Some (pointFeature s h c x y)"
proof -
  have "[''addr:street'' \<mapsto> AString s, ''addr:housenumber'' \<mapsto> AString h,
         ''addr:city'' \<mapsto> AString c] =
        Map.empty ++ map_of (rev [(''addr:street'', AString s), (''addr:housenumber'', AString h),
         (''addr:city'', AString c)])"
    by (rule ext) simp
  then show ?thesis
    by (simp add: unmarshalFeature_def jsonPoint_def featureField_def lowerASCII_def
        zeroFeature_def unmarshalString_def unmarshalProperties_def unmarshalGeometry_def
        geometryField_def pointFeature_def less_eq_char_def)
qed

lemma fixtureElements_items: "map unmarshalFeature fixtureElements = fixtureItems"
  by (simp add: fixtureElements_def fixtureItems_def unmarshalFeature_jsonPoint fixtureA_def
      fixtureA2_def fixtureB_def) (simp add: unmarshalFeature_def)

lemma fixture_pipeline:
  "\<exists>s0 s. initialLoader slowClock = Inr s0 \<and>
     loadFeatures (\<lambda>x. []) slowClock s0 fixtureItems = Inr s \<and>
     processGeoJSON unmarshalFeature (\<lambda>x. []) slowClock 8 fixtureCollection =
       Some (buildIndex (db s))"
proof -
  from fixture_run obtain s0 s where
    s: "initialLoader slowClock = Inr s0" "loadFeatures (\<lambda>x. []) slowClock s0 fixtureItems = Inr s"
    by blast
  have fuel: "(8::nat) = Suc (Suc (Suc (Suc (length fixtureElements + 0))))"
    by (simp add: fixtureElements_def)
  have "processGeoJSON unmarshalFeature (\<lambda>x. []) slowClock 8 fixtureCollection =
     (case initialLoader slowClock of
        Inl err \<Rightarrow> Some (Inl err)
      | Inr s0 \<Rightarrow>
          (case loadFeatures (\<lambda>x. []) slowClock s0 (map unmarshalFeature fixtureElements) of
             Inl err \<Rightarrow> Some (Inl err)
           | Inr s \<Rightarrow> Some (buildIndex (db s))))"
    unfolding fuel fixtureCollection_def
    by (rule processGeoJSON_collection) simp
  with s show ?thesis by (simp add: fixtureElements_items)
qed



text \<open>
  Claim C8. No committed transaction of the loader was given more records than
  \<open>batchSize\<close> (500000), for every sequence of features and every clock: at the head
  of the loop the batch is below the maximum, and that holds for the last, partial
  batch too; so it is for every run of \<^verbatim>\<open>processGeoJSON\<close> that ends, on any
  document. A record appended to the batch flushes it when the batch has reached
  \<open>batchSize\<close> or the time since the batch began has reached \<open>maxBatchDuration\<close>,
  and only then; the clock is read when a record is appended. The committed
  transactions hold the extracted records, each once, in order.
\<close>

theorem batch_windowing_bound:
  "batchSize = 500000 \<and>
   (\<exists>s0 s. initialLoader clk = Inr s0 \<and> featuresLoop ff clk s0 items = Inr s \<and>
      length (batch s) < batchSize \<and>
      (\<forall>b \<in> set (commits (db s)). length b \<le> batchSize)) \<and>
   (\<exists>s0 s. initialLoader clk = Inr s0 \<and> loadFeatures ff clk s0 items = Inr s \<and>
      (\<forall>b \<in> set (commits (db s)). length b \<le> batchSize) \<and>
      concat (commits (db s)) = extracted ff items) \<and>
   (processGeoJSON unm ff clk fuel doc = Some (Inr d) \<longrightarrow>
      (\<forall>b \<in> set (commits d). length b \<le> batchSize)) \<and>
   (\<forall>s f a. extractAddressData ff f = Inr (Some a) \<longrightarrow>
      (\<exists>s'. loopBody ff clk s (Some f) = Inr s' \<and>
         (if batchSize \<le> length (batch s) + 1 \<or>
             maxBatchDuration \<le> clk (ticks s) - batchStartTime s
          then batch s' = [] \<and>
               commits (db s') = commits (db s) @ [written (tx s) @ batch s @ [a]]
          else batch s' = batch s @ [a] \<and> commits (db s') = commits (db s))))"
proof (intro conjI impI)
  show "batchSize = 500000" by (simp add: batchSize_def)
  obtain s0 where s0: "initialLoader clk = Inr s0" "loaderInv s0 []"
    using initialLoader_inv by blast
  from featuresLoop_inv [OF s0(2), of ff clk items] obtain s where
    "featuresLoop ff clk s0 items = Inr s" "loaderInv s (extracted ff items)"
    by auto
  with s0(1) show "\<exists>s0 s. initialLoader clk = Inr s0 \<and> featuresLoop ff clk s0 items = Inr s \<and>
      length (batch s) < batchSize \<and>
      (\<forall>b \<in> set (commits (db s)). length b \<le> batchSize)"
    by (auto simp: loaderInv_def list_all_iff)
  from loadFeatures_inv [OF s0(2), of ff clk items] s0(1)
  show "\<exists>s0 s. initialLoader clk = Inr s0 \<and> loadFeatures ff clk s0 items = Inr s \<and>
      (\<forall>b \<in> set (commits (db s)). length b \<le> batchSize) \<and>
      concat (commits (db s)) = extracted ff items"
    by (auto simp: list_all_iff)
  show "\<forall>s f a. extractAddressData ff f = Inr (Some a) \<longrightarrow>
      (\<exists>s'. loopBody ff clk s (Some f) = Inr s' \<and>
         (if batchSize \<le> length (batch s) + 1 \<or>
             maxBatchDuration \<le> clk (ticks s) - batchStartTime s
          then batch s' = [] \<and>
               commits (db s') = commits (db s) @ [written (tx s) @ batch s @ [a]]
          else batch s' = batch s @ [a] \<and> commits (db s') = commits (db s)))"
    using loopBody_trigger by blast
  {
    assume "processGeoJSON unm ff clk fuel doc = Some (Inr d)"
    then obtain xs where "importedBy ff d xs"
      using processGeoJSON_result by blast
    then show "\<forall>b \<in> set (commits d). length b \<le> batchSize"
      by (simp add: importedBy_def list_all_iff)
  }
qed

text \<open>
  With the slow clock the second record flushes the batch by time: the import of the
  fixtures' collection commits a transaction of two records, then the last batch of
  one.
\<close>

theorem batch_windowing_bound_fixture:
  "\<exists>d. processGeoJSON unmarshalFeature (\<lambda>x. []) slowClock 8 fixtureCollection = Some (Inr d) \<and>
     list_all (\<lambda>b. length b \<le> batchSize) (commits d) \<and>
     commits d =
       [[recordOf ''Hauptstrasse'' ''1'' ''Berlin'' 13 52,
         recordOf ''Hauptstrasse'' ''1'' ''Berlin'' 14 53],
        [recordOf ''Hauptstrasse'' ''2'' ''Berlin'' 13 53]]"
proof -
  from fixture_pipeline obtain s0 s where
    s: "initialLoader slowClock = Inr s0"
       "loadFeatures (\<lambda>x. []) slowClock s0 fixtureItems = Inr s"
       "processGeoJSON unmarshalFeature (\<lambda>x. []) slowClock 8 fixtureCollection =
          Some (buildIndex (db s))"
    by blast
  from fixture_run obtain t0 t where
    t: "initialLoader slowClock = Inr t0"
       "loadFeatures (\<lambda>x. []) slowClock t0 fixtureItems = Inr t"
       "commits (db t) =
         [[recordOf ''Hauptstrasse'' ''1'' ''Berlin'' 13 52,
           recordOf ''Hauptstrasse'' ''1'' ''Berlin'' 14 53],
          [recordOf ''Hauptstrasse'' ''2'' ''Berlin'' 13 53]]"
    by blast
  from s(1) t(1) have "t0 = s0" by simp
  with s(2) t(2) have ts: "t = s" by simp
  obtain d where d: "buildIndex (db s) = Inr d" "commits d = commits (db s)"
    using buildIndex_tables by blast
  with s(3) have run:
    "processGeoJSON unmarshalFeature (\<lambda>x. []) slowClock 8 fixtureCollection = Some (Inr d)"
    by simp
  with batch_windowing_bound [of slowClock "\<lambda>x. []" "[]" unmarshalFeature 8 fixtureCollection d]
  have "\<forall>b \<in> set (commits d). length b \<le> batchSize" by blast
  with run d(2) t(3) ts show ?thesis by (auto simp: list_all_iff)
qed


section \<open>Properties of the full-text table\<close>

text \<open>
  Claim C3. The full-text table is to index a hyphenated word such as
  \<^verbatim>\<open>Haupt-Stra\<close>\<^verbatim>\<open>U+00DF\<close>\<^verbatim>\<open>e\<close> as one token. The option the code passes names the
  token characters backslash, \<^verbatim>\<open>x\<close>, \<^verbatim>\<open>2\<close> and \<^verbatim>\<open>d\<close>; the hyphen is not among them
  and separates tokens: the word is indexed as two tokens. The diacritics are kept.
\<close>

theorem hyphen_separates_tokens:
  "fts5_args [] False tokenizeOption =
     [''unicode61'', ''remove_diacritics'', ''0'', ''tokenchars'',
      [CHR 0x5C, CHR ''x'', CHR ''2'', CHR ''d'']] \<and>
   tokenchars = [CHR 0x5C, CHR ''x'', CHR ''2'', CHR ''d''] \<and>
   \<not> isTokenChar CHR ''-'' \<and>
   unicode61 HauptStrasse = [''haupt'', ''stra'' @ [CHR 0xC3, CHR 0x9F] @ ''e'']"
  by code_simp

section \<open>Properties of the search\<close>





end
